theory Spec2Isabelle
  imports Complex_Main "HOL-Library.Word"
begin

section \<open>The AutoTrader of src/autotrader.cc\<close>

text \<open>
  The source is one C++ class, \<^verbatim>\<open>AutoTrader\<close>, whose member functions are the callbacks of
  a trading gateway. Its header is not part of the sources, so the member variables are read off
  their uses. Reading conventions, each visible in the definitions below:
  \<^item> \<^verbatim>\<open>unsigned long\<close> is a 64-bit word: \<open>+\<close>, \<open>-\<close> wrap, \<open><\<close> and \<open>min\<close> are unsigned;
  \<^item> \<^verbatim>\<open>std::array<unsigned long, TOP_LEVEL_COUNT>\<close> is a function from the index to the
    entry (the handlers read index 0 only);
  \<^item> the queues are lists, oldest entry first: \<^verbatim>\<open>push_back\<close> appends, \<^verbatim>\<open>pop\<close> drops the head;
  \<^item> the positions, declared signed in the header, are 64-bit words read by \<open>sint\<close>; every
    expression of the source that uses them mixes them with \<^verbatim>\<open>unsigned long\<close>, which
    converts them to unsigned;
  \<^item> an operation with no defined result (an integer division by zero, a read outside a
    container, an overflowing \<^verbatim>\<open>int\<close> counter) is a value of type \<open>error\<close>;
  \<^item> line 71 and line 79 divide by \<^verbatim>\<open>DIFF_recent_mp_price.size() - 1\<close>; the comment of
    line 65 (mean of the last n-1 entries) makes this the size of the history the function was
    given, \<^verbatim>\<open>DIFF_recent_mp_prices\<close>; likewise \<^verbatim>\<open>ETF_tempID\<close> of line 177 is the local
    \<^verbatim>\<open>tempID\<close> of line 173, as in the buy branch (line 200);
  \<^item> \<^verbatim>\<open>mAskID\<close>, the id the market-update handlers send their orders under, and
    \<^verbatim>\<open>mAskId\<close>, the slot the status handler clears, are two names in the source and two
    fields here; no statement of the source assigns \<^verbatim>\<open>mAskID\<close>, \<^verbatim>\<open>ETF_Pos\<close>,
    \<^verbatim>\<open>FTR_Pos\<close>, \<^verbatim>\<open>FTR_ask_vol_arr\<close> or \<^verbatim>\<open>FTR_bid_vol_arr\<close>, and none inserts into
    \<^verbatim>\<open>mAsks\<close> or \<^verbatim>\<open>mBids\<close>;
  \<^item> logging has no effect on the state and is left out.
\<close>

type_synonym u64 = "64 word"

datatype error = DivisionByZero | IndexOutOfRange | IntOverflow

datatype Instrument = ETF | FUTURE

datatype Side = SELL | BUY

datatype Lifespan = FILL_AND_KILL | GOOD_FOR_DAY

text \<open>The calls a handler makes into the gateway, in the order it makes them.\<close>

datatype call =
  SendInsertOrder u64 Side u64 u64 Lifespan
| SendHedgeOrder u64 Side u64 u64 "Lifespan option"

fun call_volume :: "call \<Rightarrow> u64" where
  "call_volume (SendInsertOrder i sd p v l) = v"
| "call_volume (SendHedgeOrder i sd p v l) = v"

subsection \<open>What the missing headers fix\<close>

text \<open>
  \<^verbatim>\<open>MINIMUM_BID\<close> and \<^verbatim>\<open>MAXIMUM_ASK\<close> come from the gateway's headers. The two uses of
  \<^verbatim>\<open>std::pow\<close> go through \<^verbatim>\<open>double\<close>: the rounding of
  \<^verbatim>\<open>stdDevDif += std::pow(d, 2)\<close> (old accumulator and \<open>d\<close> to new accumulator) and of
  \<^verbatim>\<open>std::pow(x, e)\<close> for a nonzero \<open>e\<close> are parameters, so every theorem holds whatever the
  floating-point unit returns.
\<close>

record platform =
  MINIMUM_BID :: int
  MAXIMUM_ASK :: int
  pow2_accumulate :: "u64 \<Rightarrow> u64 \<Rightarrow> u64"
  pow_nonzero_exponent :: "u64 \<Rightarrow> int \<Rightarrow> u64"

definition LOT_SIZE :: int where
  "LOT_SIZE = 10"

definition POSITION_LIMIT :: int where
  "POSITION_LIMIT = 100"

definition TICK_SIZE_IN_CENTS :: int where
  "TICK_SIZE_IN_CENTS = 100"

text \<open>C++ integer division truncates towards zero.\<close>

definition c_div :: "int \<Rightarrow> int \<Rightarrow> int" where
  "c_div a b = sgn a * sgn b * (\<bar>a\<bar> div \<bar>b\<bar>)"

definition MIN_BID_NEARST_TICK :: "platform \<Rightarrow> int" where
  "MIN_BID_NEARST_TICK pf =
     c_div (MINIMUM_BID pf + TICK_SIZE_IN_CENTS) TICK_SIZE_IN_CENTS * TICK_SIZE_IN_CENTS"

definition MAX_ASK_NEAREST_TICK :: "platform \<Rightarrow> int" where
  "MAX_ASK_NEAREST_TICK pf = c_div (MAXIMUM_ASK pf) TICK_SIZE_IN_CENTS * TICK_SIZE_IN_CENTS"

text \<open>
  \<^verbatim>\<open>std::pow(x, e)\<close> stored into an \<^verbatim>\<open>unsigned long\<close>. For \<open>e = 0\<close> the result is 1.0 for
  every \<open>x\<close>.
\<close>

definition std_pow :: "platform \<Rightarrow> u64 \<Rightarrow> int \<Rightarrow> u64" where
  "std_pow pf x e = (if e = 0 then 1 else pow_nonzero_exponent pf x e)"

subsection \<open>The state\<close>

record AutoTrader =
  ETF_Pos :: u64
  FTR_Pos :: u64
  ETF_ask_arr :: "nat \<Rightarrow> u64"
  ETF_bid_arr :: "nat \<Rightarrow> u64"
  FTR_ask_arr :: "nat \<Rightarrow> u64"
  FTR_bid_arr :: "nat \<Rightarrow> u64"
  FTR_ask_vol_arr :: "nat \<Rightarrow> u64"
  FTR_bid_vol_arr :: "nat \<Rightarrow> u64"
  ETF_bestAsk :: u64
  ETF_bestBid :: u64
  FTR_bestAsk :: u64
  FTR_bestBid :: u64
  ETF_midprice :: u64
  FTR_midprice :: u64
  ETF_recent_mp_prices :: "u64 list"
  FTR_recent_mp_prices :: "u64 list"
  DIFF_recent_mp_prices :: "u64 list"
  ETF_Much_Greater :: bool
  FTR_Much_Greater :: bool
  mAskID :: u64
  my_ETF_ask_arr :: "u64 list"
  my_ETF_ask_ids :: "u64 list"
  my_ETF_ask_vol_arr :: "u64 list"
  my_FTR_bid_arr :: "u64 list"
  my_FTR_ask_ids :: "u64 list"
  my_FTR_bid_vol_arr :: "u64 list"
  my_ETF_bid_arr :: "u64 list"
  my_ETF_bid_ids :: "u64 list"
  my_etf_bid_vol_arr :: "u64 list"
  my_FTR_ask_arr :: "u64 list"
  my_FTR_ask_vol_arr :: "u64 list"
  mPosition :: u64
  mNextMessageId :: u64
  mAsks :: "u64 set"
  mBids :: "u64 set"
  mAskId :: u64
  mBidId :: u64

subsection \<open>deterMineOrderStatus (lines 62-94)\<close>

text \<open>The loop of lines 67-70: \<^verbatim>\<open>for (i = 1; i < size; i++) avgDif += D[i]\<close>.\<close>

definition avgDif_loop :: "u64 list \<Rightarrow> u64" where
  "avgDif_loop D = fold (\<lambda>i acc. acc + D ! i) [1..<length D] 0"

text \<open>The loop of lines 75-78: \<^verbatim>\<open>stdDevDif += std::pow(avgDif - D[i], 2)\<close>.\<close>

definition stdDevDif_loop :: "platform \<Rightarrow> u64 \<Rightarrow> u64 list \<Rightarrow> u64" where
  "stdDevDif_loop pf avgDif D =
     fold (\<lambda>i acc. pow2_accumulate pf acc (avgDif - D ! i)) [1..<length D] 0"

text \<open>
  Lines 64-79, the pair \<open>(avgDif, stdDevDif)\<close>. The divisor \<^verbatim>\<open>size() - 1\<close> is an
  \<^verbatim>\<open>unsigned long\<close>: 0 for one sample, \<open>2^64 - 1\<close> for none. The loop counter is an
  \<^verbatim>\<open>int\<close>, which cannot count to \<open>2^31\<close>. The exponent of line 79 is the \<^verbatim>\<open>int\<close>
  expression \<^verbatim>\<open>1/2\<close>.
\<close>

definition spread_statistics :: "platform \<Rightarrow> u64 list \<Rightarrow> error + (u64 \<times> u64)" where
  "spread_statistics pf D =
     (if 2 ^ 31 \<le> length D then Inl IntOverflow
      else if length D = 1 then Inl DivisionByZero
      else
        let divisor = (word_of_nat (length D) - 1 :: u64);
            avgDif = avgDif_loop D div divisor;
            stdDevDif = std_pow pf (stdDevDif_loop pf avgDif D div divisor) (c_div 1 2)
        in Inr (avgDif, stdDevDif))"

text \<open>Lines 81-93: the two flags, \<open>(ETF_Much_Greater, FTR_Much_Greater)\<close>.\<close>

definition extreme_enough :: "u64 \<Rightarrow> u64 \<Rightarrow> u64 \<Rightarrow> bool \<times> bool" where
  "extreme_enough newest avgDif stdDevDif =
     (if newest > avgDif + 1 * stdDevDif then (True, False)
      else if newest < avgDif - 1 * stdDevDif then (False, True)
      else (False, False))"

text \<open>
  The flags for a history: \<^verbatim>\<open>D[last]\<close> with \<^verbatim>\<open>last = size() - 1\<close> is outside an empty
  history.
\<close>

definition signal_flags :: "platform \<Rightarrow> u64 list \<Rightarrow> error + (bool \<times> bool)" where
  "signal_flags pf D =
     (case spread_statistics pf D of
        Inl e \<Rightarrow> Inl e
      | Inr (avgDif, stdDevDif) \<Rightarrow>
          (if D = [] then Inl IndexOutOfRange
           else Inr (extreme_enough (D ! (length D - 1)) avgDif stdDevDif)))"

definition deterMineOrderStatus :: "platform \<Rightarrow> u64 list \<Rightarrow> AutoTrader \<Rightarrow> error + AutoTrader" where
  "deterMineOrderStatus pf D s =
     (case signal_flags pf D of
        Inl e \<Rightarrow> Inl e
      | Inr (e, f) \<Rightarrow> Inr (s\<lparr>ETF_Much_Greater := e, FTR_Much_Greater := f\<rparr>))"

text \<open>The tri-state signal the two flags stand for.\<close>

definition ETF_RICH :: "bool \<times> bool" where
  "ETF_RICH = (True, False)"

definition FUTURE_RICH :: "bool \<times> bool" where
  "FUTURE_RICH = (False, True)"

definition NEUTRAL :: "bool \<times> bool" where
  "NEUTRAL = (False, False)"

subsection \<open>The market-update handlers (lines 125-298 and 346-519)\<close>

text \<open>Lines 148-156 and 228-236: the rolling window of midprices.\<close>

definition recent_mp_push :: "u64 list \<Rightarrow> u64 \<Rightarrow> u64 list" where
  "recent_mp_push q midprice =
     (if length q \<le> 31 then q @ [midprice] else tl q @ [midprice])"

text \<open>Lines 141-156 and 221-236: the snapshot, the midprice and the window of one instrument.\<close>

definition store_snapshot ::
  "Instrument \<Rightarrow> (nat \<Rightarrow> u64) \<Rightarrow> (nat \<Rightarrow> u64) \<Rightarrow> AutoTrader \<Rightarrow> AutoTrader" where
  "store_snapshot instrument askPrices bidPrices s =
     (case instrument of
        ETF \<Rightarrow>
          s\<lparr>ETF_ask_arr := askPrices, ETF_bid_arr := bidPrices,
            ETF_bestAsk := askPrices 0, ETF_bestBid := bidPrices 0,
            ETF_midprice := (askPrices 0 + bidPrices 0) div 2,
            ETF_recent_mp_prices :=
              recent_mp_push (ETF_recent_mp_prices s) ((askPrices 0 + bidPrices 0) div 2)\<rparr>
      | FUTURE \<Rightarrow>
          s\<lparr>FTR_ask_arr := askPrices, FTR_bid_arr := bidPrices,
            FTR_bestAsk := askPrices 0, FTR_bestBid := bidPrices 0,
            FTR_midprice := (askPrices 0 + bidPrices 0) div 2,
            FTR_recent_mp_prices :=
              recent_mp_push (FTR_recent_mp_prices s) ((askPrices 0 + bidPrices 0) div 2)\<rparr>)"

text \<open>Lines 163-167: the spread sample, appended when the two windows have the same size.\<close>

definition append_spread :: "platform \<Rightarrow> AutoTrader \<Rightarrow> error + AutoTrader" where
  "append_spread pf s =
     (if length (ETF_recent_mp_prices s) = length (FTR_recent_mp_prices s) then
        (if ETF_recent_mp_prices s = [] then Inl IndexOutOfRange
         else
           let D = DIFF_recent_mp_prices s @
                 [ETF_recent_mp_prices s ! (length (ETF_recent_mp_prices s) - 1)
                  - FTR_recent_mp_prices s ! (length (FTR_recent_mp_prices s) - 1)]
           in deterMineOrderStatus pf D (s\<lparr>DIFF_recent_mp_prices := D\<rparr>))
      else Inr s)"

text \<open>
  Lines 170-215: the headroom checks and the two pairs of orders. The comparisons are unsigned:
  \<^verbatim>\<open>-100\<close> is converted to \<open>2^64 - 100\<close>. \<^verbatim>\<open>tempID2\<close> of the sell branch is an
  \<^verbatim>\<open>unsigned int\<close>.
\<close>

definition trade_on_signal :: "AutoTrader \<Rightarrow> AutoTrader \<times> call list" where
  "trade_on_signal s =
     (if ETF_Much_Greater s \<and> ETF_Pos s - min (word_of_int LOT_SIZE) (ETF_bid_arr s 0) > - 100 then
        (s\<lparr>my_ETF_ask_arr := my_ETF_ask_arr s @ [ETF_bestBid s],
           my_ETF_ask_ids := my_ETF_ask_ids s @ [mAskID s],
           my_ETF_ask_vol_arr := my_ETF_ask_vol_arr s @ [min (word_of_int LOT_SIZE) (ETF_bid_arr s 0)],
           my_FTR_bid_arr := my_FTR_bid_arr s @ [FTR_bestAsk s],
           my_FTR_ask_ids := my_FTR_ask_ids s @ [take_bit 32 (mAskID s)],
           my_FTR_bid_vol_arr :=
             my_FTR_bid_vol_arr s @ [min (word_of_int LOT_SIZE) (FTR_ask_vol_arr s 0)]\<rparr>,
         [SendInsertOrder (mAskID s) SELL (ETF_bestBid s)
            (min (word_of_int LOT_SIZE) (ETF_bid_arr s 0)) GOOD_FOR_DAY,
          SendHedgeOrder (mAskID s) BUY (FTR_bestAsk s)
            (min (word_of_int LOT_SIZE) (FTR_ask_vol_arr s 0)) (Some GOOD_FOR_DAY)])
      else if FTR_Much_Greater s \<and> ETF_Pos s + min (word_of_int LOT_SIZE) (ETF_bid_arr s 0) < 100 then
        (s\<lparr>my_ETF_bid_arr := my_ETF_bid_arr s @ [ETF_bestAsk s],
           my_ETF_bid_ids := my_ETF_bid_ids s @ [mAskID s],
           my_etf_bid_vol_arr := my_etf_bid_vol_arr s @ [min (word_of_int LOT_SIZE) (ETF_ask_arr s 0)],
           my_FTR_ask_arr := my_FTR_ask_arr s @ [FTR_bestBid s],
           my_FTR_ask_ids := my_FTR_ask_ids s @ [mAskID s],
           my_FTR_ask_vol_arr :=
             my_FTR_ask_vol_arr s @ [min (word_of_int LOT_SIZE) (FTR_bid_vol_arr s 0)]\<rparr>,
         [SendInsertOrder (mAskID s) BUY (ETF_bestAsk s)
            (min (word_of_int LOT_SIZE) (ETF_ask_arr s 0)) GOOD_FOR_DAY,
          SendHedgeOrder (mAskID s) SELL (FTR_bestBid s)
            (min (word_of_int LOT_SIZE) (FTR_bid_vol_arr s 0)) (Some GOOD_FOR_DAY)])
      else (s, []))"

text \<open>
  Lines 158-216: the part of a market update after the snapshot is stored. Without a sample the
  flags keep the values of the last evaluation.
\<close>

definition update_spread_and_trade :: "platform \<Rightarrow> AutoTrader \<Rightarrow> error + (AutoTrader \<times> call list)" where
  "update_spread_and_trade pf s =
     (if ETF_midprice s \<noteq> 0 \<and> FTR_midprice s \<noteq> 0 then
        (case append_spread pf s of
           Inl e \<Rightarrow> Inl e
         | Inr s1 \<Rightarrow> Inr (trade_on_signal s1))
      else Inr (s, []))"

text \<open>
  The body of both handlers. The four copies in the source (lines 138-217, 219-297, 359-438 and
  440-518) are the same text up to the instrument's prefix; \<^verbatim>\<open>askVolumes\<close>,
  \<^verbatim>\<open>bidVolumes\<close> and \<^verbatim>\<open>sequenceNumber\<close> are only logged.
\<close>

definition market_update ::
  "platform \<Rightarrow> Instrument \<Rightarrow> (nat \<Rightarrow> u64) \<Rightarrow> (nat \<Rightarrow> u64) \<Rightarrow> (nat \<Rightarrow> u64) \<Rightarrow> (nat \<Rightarrow> u64)
     \<Rightarrow> AutoTrader \<Rightarrow> error + (AutoTrader \<times> call list)" where
  "market_update pf instrument askPrices askVolumes bidPrices bidVolumes s =
     update_spread_and_trade pf (store_snapshot instrument askPrices bidPrices s)"

definition OrderBookMessageHandler ::
  "platform \<Rightarrow> Instrument \<Rightarrow> u64 \<Rightarrow> (nat \<Rightarrow> u64) \<Rightarrow> (nat \<Rightarrow> u64) \<Rightarrow> (nat \<Rightarrow> u64) \<Rightarrow> (nat \<Rightarrow> u64)
     \<Rightarrow> AutoTrader \<Rightarrow> error + (AutoTrader \<times> call list)" where
  "OrderBookMessageHandler pf instrument sequenceNumber askPrices askVolumes bidPrices bidVolumes s =
     market_update pf instrument askPrices askVolumes bidPrices bidVolumes s"

definition TradeTicksMessageHandler ::
  "platform \<Rightarrow> Instrument \<Rightarrow> u64 \<Rightarrow> (nat \<Rightarrow> u64) \<Rightarrow> (nat \<Rightarrow> u64) \<Rightarrow> (nat \<Rightarrow> u64) \<Rightarrow> (nat \<Rightarrow> u64)
     \<Rightarrow> AutoTrader \<Rightarrow> error + (AutoTrader \<times> call list)" where
  "TradeTicksMessageHandler pf instrument sequenceNumber askPrices askVolumes bidPrices bidVolumes s =
     market_update pf instrument askPrices askVolumes bidPrices bidVolumes s"

subsection \<open>The order callbacks (lines 98-122 and 303-342)\<close>

definition OrderFilledMessageHandler ::
  "platform \<Rightarrow> u64 \<Rightarrow> u64 \<Rightarrow> u64 \<Rightarrow> AutoTrader \<Rightarrow> AutoTrader \<times> call list" where
  "OrderFilledMessageHandler pf clientOrderId price volume s =
     (if clientOrderId \<in> mAsks s then
        (s\<lparr>mPosition := mPosition s - volume, mNextMessageId := mNextMessageId s + 1\<rparr>,
         [SendHedgeOrder (mNextMessageId s) BUY (word_of_int (MAX_ASK_NEAREST_TICK pf)) volume None])
      else if clientOrderId \<in> mBids s then
        (s\<lparr>mPosition := mPosition s + volume, mNextMessageId := mNextMessageId s + 1\<rparr>,
         [SendHedgeOrder (mNextMessageId s) SELL (word_of_int (MIN_BID_NEARST_TICK pf)) volume None])
      else (s, []))"

definition OrderStatusMessageHandler :: "u64 \<Rightarrow> u64 \<Rightarrow> u64 \<Rightarrow> u64 \<Rightarrow> AutoTrader \<Rightarrow> AutoTrader" where
  "OrderStatusMessageHandler clientOrderId fillVolume remainingVolume fees s =
     (if remainingVolume = 0 then
        (let s1 = (if clientOrderId = mAskId s then s\<lparr>mAskId := 0\<rparr>
                   else if clientOrderId = mBidId s then s\<lparr>mBidId := 0\<rparr>
                   else s)
         in s1\<lparr>mAsks := mAsks s1 - {clientOrderId}, mBids := mBids s1 - {clientOrderId}\<rparr>)
      else s)"

definition ErrorMessageHandler :: "u64 \<Rightarrow> string \<Rightarrow> AutoTrader \<Rightarrow> AutoTrader" where
  "ErrorMessageHandler clientOrderId errorMessage s =
     (if clientOrderId \<noteq> 0 \<and> (clientOrderId \<in> mAsks s \<or> clientOrderId \<in> mBids s)
      then OrderStatusMessageHandler clientOrderId 0 0 0 s
      else s)"

definition HedgeFilledMessageHandler :: "u64 \<Rightarrow> u64 \<Rightarrow> u64 \<Rightarrow> AutoTrader \<Rightarrow> AutoTrader" where
  "HedgeFilledMessageHandler clientOrderId price volume s = s"

definition DisconnectHandler :: "AutoTrader \<Rightarrow> AutoTrader" where
  "DisconnectHandler s = s"

subsection \<open>Sequences of callbacks\<close>

datatype callback =
  OrderBook Instrument u64 "nat \<Rightarrow> u64" "nat \<Rightarrow> u64" "nat \<Rightarrow> u64" "nat \<Rightarrow> u64"
| TradeTicks Instrument u64 "nat \<Rightarrow> u64" "nat \<Rightarrow> u64" "nat \<Rightarrow> u64" "nat \<Rightarrow> u64"
| OrderFilled u64 u64 u64
| OrderStatus u64 u64 u64 u64
| HedgeFilled u64 u64 u64
| ErrorMessage u64 string
| Disconnect

fun deliver :: "platform \<Rightarrow> AutoTrader \<Rightarrow> callback \<Rightarrow> error + (AutoTrader \<times> call list)" where
  "deliver pf s (OrderBook i n ap av bp bv) = OrderBookMessageHandler pf i n ap av bp bv s"
| "deliver pf s (TradeTicks i n ap av bp bv) = TradeTicksMessageHandler pf i n ap av bp bv s"
| "deliver pf s (OrderFilled c p v) = Inr (OrderFilledMessageHandler pf c p v s)"
| "deliver pf s (OrderStatus c fv rv fees) = Inr (OrderStatusMessageHandler c fv rv fees s, [])"
| "deliver pf s (HedgeFilled c p v) = Inr (HedgeFilledMessageHandler c p v s, [])"
| "deliver pf s (ErrorMessage c m) = Inr (ErrorMessageHandler c m s, [])"
| "deliver pf s Disconnect = Inr (DisconnectHandler s, [])"

text \<open>A run stops at the first callback that fails; the calls of the callbacks accumulate.\<close>

fun run :: "platform \<Rightarrow> AutoTrader \<Rightarrow> callback list \<Rightarrow> error + (AutoTrader \<times> call list)" where
  "run pf s [] = Inr (s, [])"
| "run pf s (cb # cbs) =
     (case deliver pf s cb of
        Inl e \<Rightarrow> Inl e
      | Inr (s1, cs1) \<Rightarrow>
          (case run pf s1 cbs of
             Inl e \<Rightarrow> Inl e
           | Inr (s2, cs2) \<Rightarrow> Inr (s2, cs1 @ cs2)))"

subsection \<open>The statistics as the specification words them\<close>

text \<open>
  Section 4.1 of the specification: the arithmetic mean and the population standard deviation
  (the square root of the mean squared deviation) of the samples before the newest one. These two
  definitions follow the specification, not the source; they are what the source is compared
  with.
\<close>

definition spec_spreadMean :: "u64 list \<Rightarrow> real" where
  "spec_spreadMean D = (\<Sum>x\<leftarrow>butlast D. real (unat x)) / real (length (butlast D))"

definition spec_spreadStdDev :: "u64 list \<Rightarrow> real" where
  "spec_spreadStdDev D =
     sqrt ((\<Sum>x\<leftarrow>butlast D. (real (unat x) - spec_spreadMean D) ^ 2) / real (length (butlast D)))"

subsection \<open>Concrete platforms and states\<close>

text \<open>
  A platform to evaluate on: price limits of 1 and \<open>2^31 - 1\<close> cents, squares accumulated
  exactly.
\<close>

definition reference_platform :: platform where
  "reference_platform =
     \<lparr>MINIMUM_BID = 1, MAXIMUM_ASK = 2147483647,
      pow2_accumulate = (\<lambda>acc d. acc + d * d),
      pow_nonzero_exponent = (\<lambda>x e. x)\<rparr>"

text \<open>
  Modelled from the spec: the member initialisers are in the missing header; section 9 of the
  specification gives the initialization contract (all counters zero, all windows empty).
\<close>

definition initial_state :: AutoTrader where
  "initial_state =
     \<lparr>ETF_Pos = 0, FTR_Pos = 0,
      ETF_ask_arr = (\<lambda>i. 0), ETF_bid_arr = (\<lambda>i. 0),
      FTR_ask_arr = (\<lambda>i. 0), FTR_bid_arr = (\<lambda>i. 0),
      FTR_ask_vol_arr = (\<lambda>i. 0), FTR_bid_vol_arr = (\<lambda>i. 0),
      ETF_bestAsk = 0, ETF_bestBid = 0, FTR_bestAsk = 0, FTR_bestBid = 0,
      ETF_midprice = 0, FTR_midprice = 0,
      ETF_recent_mp_prices = [], FTR_recent_mp_prices = [], DIFF_recent_mp_prices = [],
      ETF_Much_Greater = False, FTR_Much_Greater = False,
      mAskID = 0,
      my_ETF_ask_arr = [], my_ETF_ask_ids = [], my_ETF_ask_vol_arr = [],
      my_FTR_bid_arr = [], my_FTR_ask_ids = [], my_FTR_bid_vol_arr = [],
      my_ETF_bid_arr = [], my_ETF_bid_ids = [], my_etf_bid_vol_arr = [],
      my_FTR_ask_arr = [], my_FTR_ask_vol_arr = [],
      mPosition = 0, mNextMessageId = 0,
      mAsks = {}, mBids = {}, mAskId = 0, mBidId = 0\<rparr>"

text \<open>
  The last midprice of each window is the instrument's current midprice: true of the initial
  state and kept by every callback.
\<close>

definition windows_consistent :: "AutoTrader \<Rightarrow> bool" where
  "windows_consistent s =
     ((ETF_recent_mp_prices s = [] \<or> last (ETF_recent_mp_prices s) = ETF_midprice s) \<and>
      (FTR_recent_mp_prices s = [] \<or> last (FTR_recent_mp_prices s) = FTR_midprice s))"

text \<open>
  The sell signal is up, the future trades at 10000 and its window is one sample ahead of the
  ETF's, so the next ETF update appends no spread sample.
\<close>

definition sell_signal_state :: AutoTrader where
  "sell_signal_state =
     initial_state\<lparr>ETF_Much_Greater := True, FTR_midprice := 10000,
       FTR_bestAsk := 10100, FTR_bestBid := 9900,
       FTR_recent_mp_prices := [10000, 10000]\<rparr>"

text \<open>
  Three spread samples of 0 are recorded, the ETF trades at 100 and the future at 200, and the
  future's window is one sample ahead of the ETF's, so the next ETF update appends the fourth
  spread sample.
\<close>

definition three_samples_state :: AutoTrader where
  "three_samples_state =
     initial_state\<lparr>ETF_midprice := 100, FTR_midprice := 200,
       ETF_recent_mp_prices := [100], FTR_recent_mp_prices := [100, 200],
       DIFF_recent_mp_prices := [0, 0, 0]\<rparr>"

text \<open>An ask 7 and a bid 9 are tracked; 7 is the current ask slot, 9 the current bid slot.\<close>

definition tracked_state :: AutoTrader where
  "tracked_state = initial_state\<lparr>mAsks := {7}, mBids := {9}, mAskId := 7, mBidId := 9\<rparr>"

text \<open>
  No order is tracked, no signal is up, no spread sample is recorded and the position is flat, as
  in the initial state.
\<close>

definition untouched :: "AutoTrader \<Rightarrow> bool" where
  "untouched s =
     (mAsks s = {} \<and> mBids s = {} \<and> \<not> ETF_Much_Greater s \<and> \<not> FTR_Much_Greater s
      \<and> DIFF_recent_mp_prices s = [] \<and> mPosition s = 0)"

section \<open>The statistics of deterMineOrderStatus\<close>

subsection \<open>The two loops read the history from index 1\<close>

lemma index_range_tail: "map ((!) (x # xs)) [1..<length (x # xs)] = xs"
proof -
  have "[1..<length (x # xs)] = map Suc [0..<length xs]"
    by (simp add: map_Suc_upt)
  then have "map ((!) (x # xs)) [1..<length (x # xs)] = map ((!) xs) [0..<length xs]"
    by (simp del: upt_Suc)
  then show ?thesis by (simp add: map_nth)
qed

lemma fold_index_as_fold_elems:
  "fold (\<lambda>i acc. g acc ((x # xs) ! i)) [1..<length (x # xs)] a = fold (\<lambda>d acc. g acc d) xs a"
proof -
  have "fold (\<lambda>d acc. g acc d) (map ((!) (x # xs)) [1..<length (x # xs)]) a
        = fold (\<lambda>i acc. g acc ((x # xs) ! i)) [1..<length (x # xs)] a"
    by (simp only: fold_map comp_def)
  then show ?thesis by (simp only: index_range_tail)
qed

lemma fold_add_sum_list: "fold (\<lambda>d acc. acc + d) xs (a :: u64) = a + sum_list xs"
  by (induction xs arbitrary: a) (simp_all add: ac_simps)

lemma avgDif_loop_Cons: "avgDif_loop (x # xs) = sum_list xs"
  unfolding avgDif_loop_def
  using fold_index_as_fold_elems [of "(+)" x xs 0] by (simp add: fold_add_sum_list)

lemma stdDevDif_loop_Cons:
  "stdDevDif_loop pf a (x # xs) = fold (\<lambda>d acc. pow2_accumulate pf acc (a - d)) xs 0"
  unfolding stdDevDif_loop_def
  using fold_index_as_fold_elems [of "\<lambda>acc d. pow2_accumulate pf acc (a - d)" x xs 0] by simp

subsection \<open>The exponent of line 79\<close>

lemma half_exponent: "c_div 1 2 = 0"
  by (simp add: c_div_def)

lemma std_pow_half: "std_pow pf q (c_div 1 2) = 1"
  by (simp add: std_pow_def half_exponent)

lemma spread_statistics_Cons:
  assumes "xs \<noteq> []" and "length xs < 2 ^ 31 - 1"
  shows "spread_statistics pf (x # xs) = Inr (sum_list xs div word_of_nat (length xs), 1)"
proof -
  from assms have a: "\<not> (2 :: nat) ^ 31 \<le> length (x # xs)" by simp
  from assms have b: "length (x # xs) \<noteq> 1" by simp
  have c: "(word_of_nat (length (x # xs)) - 1 :: u64) = word_of_nat (length xs)" by simp
  show ?thesis
    unfolding spread_statistics_def
    by (simp only: a b c if_False Let_def avgDif_loop_Cons std_pow_half)
qed

lemma stdDevDif_is_one:
  assumes "2 \<le> length D" and "length D < 2 ^ 31"
  shows "\<exists>avgDif. spread_statistics pf D = Inr (avgDif, 1)"
proof (cases D)
  case Nil
  with assms show ?thesis by simp
next
  case (Cons x xs)
  with assms have "xs \<noteq> []" and "length xs < 2 ^ 31 - 1" by auto
  then show ?thesis unfolding Cons by (simp add: spread_statistics_Cons)
qed

subsection \<open>Fewer than two samples\<close>

lemma signal_flags_one: "signal_flags pf [d] = Inl DivisionByZero"
  by (simp add: signal_flags_def spread_statistics_def)

text \<open>
  The handlers meet the one-element history on the first spread sample: with an empty spread
  history the append of lines 163-167 never returns a state, and the second book update of a
  session is where it happens.
\<close>

lemma first_spread_sample_fails:
  assumes "DIFF_recent_mp_prices s = []"
      and "length (ETF_recent_mp_prices s) = length (FTR_recent_mp_prices s)"
  shows "append_spread pf s = Inl IndexOutOfRange \<or> append_spread pf s = Inl DivisionByZero"
  using assms
  by (simp add: append_spread_def Let_def deterMineOrderStatus_def signal_flags_def
      spread_statistics_def)

lemma first_sample_run:
  "run pf initial_state
     [OrderBook ETF 1 (\<lambda>i. 20100) av (\<lambda>i. 19900) bv,
      OrderBook FUTURE 2 (\<lambda>i. 10100) av' (\<lambda>i. 9900) bv'] = Inl DivisionByZero"
proof -
  let ?s1 = "store_snapshot ETF (\<lambda>i. 20100) (\<lambda>i. 19900) initial_state"
  have f1: "FTR_midprice ?s1 = 0"
    by (simp add: store_snapshot_def initial_state_def)
  have d1: "OrderBookMessageHandler pf ETF 1 (\<lambda>i. 20100) av (\<lambda>i. 19900) bv initial_state
            = Inr (?s1, [])"
    by (simp add: OrderBookMessageHandler_def market_update_def update_spread_and_trade_def f1)
  let ?s2 = "store_snapshot FUTURE (\<lambda>i. 10100) (\<lambda>i. 9900) ?s1"
  have f2: "ETF_midprice ?s2 = 20000" "FTR_midprice ?s2 = 10000"
    "ETF_recent_mp_prices ?s2 = [20000]" "FTR_recent_mp_prices ?s2 = [10000]"
    "DIFF_recent_mp_prices ?s2 = []"
    by (simp_all add: store_snapshot_def initial_state_def recent_mp_push_def)
  have a2: "append_spread pf ?s2 = Inl DivisionByZero"
    using first_spread_sample_fails [of ?s2 pf]
    by (simp add: f2 append_spread_def Let_def deterMineOrderStatus_def signal_flags_one)
  have d2: "OrderBookMessageHandler pf FUTURE 2 (\<lambda>i. 10100) av' (\<lambda>i. 9900) bv' ?s1
            = Inl DivisionByZero"
    by (simp add: OrderBookMessageHandler_def market_update_def update_spread_and_trade_def
        f2 a2)
  show ?thesis by (simp add: d1 d2)
qed

text \<open>
  Claim C2. The specification wants a history with fewer than two historical samples evaluated
  as NEUTRAL, without a division by zero, and names the one-element history. On a one-element
  history the source divides by \<^verbatim>\<open>size() - 1 = 0\<close> at line 71: the evaluation has no
  result, whatever the sample and the state. From the initial state, one book update of the ETF
  and one of the future are enough to get there.
\<close>

theorem one_sample_history_divides_by_zero:
  "deterMineOrderStatus pf [d] s = Inl DivisionByZero
   \<and> run pf initial_state
       [OrderBook ETF 1 (\<lambda>i. 20100) av (\<lambda>i. 19900) bv,
        OrderBook FUTURE 2 (\<lambda>i. 10100) av' (\<lambda>i. 9900) bv'] = Inl DivisionByZero"
  using first_sample_run [of pf av bv av' bv']
  by (simp add: deterMineOrderStatus_def signal_flags_one)

text \<open>A history of two samples, one of them historical, is evaluated and can signal.\<close>

lemma two_sample_history_can_signal: "signal_flags pf [a, 0] = Inr FUTURE_RICH"
  using spread_statistics_Cons [of "[0]" pf a]
  by (simp add: signal_flags_def extreme_enough_def FUTURE_RICH_def word_gt_0)

subsection \<open>The deviation\<close>

lemma spec_deviation_example: "spec_spreadStdDev [10, 30, 10, 30, 10] = 10"
proof -
  have "sqrt 100 = sqrt (10 ^ 2)" by simp
  also have "\<dots> = 10" by (simp only: real_sqrt_abs)
  finally have "sqrt 100 = 10" .
  then show ?thesis
    by (simp add: spec_spreadStdDev_def spec_spreadMean_def)
qed

text \<open>
  Claim C3. The specification wants the square root of the mean squared deviation, never a
  constant. Line 79 raises to the power \<^verbatim>\<open>1/2\<close>, an integer division, so the exponent is 0
  and the deviation is 1 for every history of two or more samples (lemma \<open>stdDevDif_is_one\<close>).
  On the history 10, 30, 10, 30, 10 the samples before the newest deviate from their mean 20 by
  10 each: the specification's deviation is 10, the source's is 1.
\<close>

theorem deviation_is_one_not_the_root:
  "spread_statistics pf [10, 30, 10, 30, 10] = Inr (20, 1)
   \<and> spec_spreadStdDev [10, 30, 10, 30, 10] = 10"
  using spread_statistics_Cons [of "[30, 10, 30, 10]" pf 10] spec_deviation_example by simp

subsection \<open>The samples the statistics run over\<close>

text \<open>
  Claim C4, as stated, fails. The specification takes the statistics over the samples before
  the newest one. On the history 100, 5, 7 that mean is 105/2; the source's mean is 6, the mean
  of 5 and 7, and moving the newest sample to 9 moves it to 7.
\<close>

theorem newest_sample_enters_the_mean:
  "spread_statistics reference_platform [100, 5, 7] = Inr (6, 1)
   \<and> spec_spreadMean [100, 5, 7] = 105 / 2
   \<and> spread_statistics reference_platform [100, 5, 9] = Inr (7, 1)"
  using spread_statistics_Cons [of "[5, 7]" reference_platform 100]
    spread_statistics_Cons [of "[5, 9]" reference_platform 100]
  by (simp add: spec_spreadMean_def)

text \<open>
  Claim C4, amended. The mean and the deviation sum run over every sample of the history but
  the oldest one (index 0), as the comment of line 65 says (the last n-1 entries): the newest
  sample is the last term of both sums, and the oldest sample changes neither.
\<close>

theorem statistics_run_over_all_but_the_oldest:
  assumes "xs \<noteq> []" and "length xs < 2 ^ 31 - 1"
  shows "spread_statistics pf (x # xs) = Inr (sum_list xs div word_of_nat (length xs), 1)
         \<and> avgDif_loop (x # xs) = sum_list (butlast xs) + last xs
         \<and> stdDevDif_loop pf a (x # xs)
             = pow2_accumulate pf (fold (\<lambda>d acc. pow2_accumulate pf acc (a - d)) (butlast xs) 0)
                 (a - last xs)
         \<and> spread_statistics pf (y # xs) = spread_statistics pf (x # xs)"
proof -
  from assms(1) have split: "xs = butlast xs @ [last xs]" by simp
  have "sum_list xs = sum_list (butlast xs @ [last xs])" using split by simp
  then have m: "avgDif_loop (x # xs) = sum_list (butlast xs) + last xs"
    by (simp add: avgDif_loop_Cons)
  have "fold (\<lambda>d acc. pow2_accumulate pf acc (a - d)) xs 0
        = fold (\<lambda>d acc. pow2_accumulate pf acc (a - d)) (butlast xs @ [last xs]) 0"
    using split by simp
  then have d: "stdDevDif_loop pf a (x # xs)
      = pow2_accumulate pf (fold (\<lambda>d acc. pow2_accumulate pf acc (a - d)) (butlast xs) 0)
          (a - last xs)"
    by (simp add: stdDevDif_loop_Cons)
  show ?thesis
    using m d spread_statistics_Cons [OF assms, of pf x] spread_statistics_Cons [OF assms, of pf y]
    by simp
qed

theorem statistics_run_over_all_but_the_oldest_witness:
  "[5, 7] \<noteq> ([] :: u64 list) \<and> length [5, 7 :: u64] < 2 ^ 31 - 1
   \<and> spread_statistics reference_platform [100, 5, 7] = Inr (6, 1)
   \<and> avgDif_loop [100, 5, 7] = 12
   \<and> stdDevDif_loop reference_platform 6 [100, 5, 7] = 2
   \<and> spread_statistics reference_platform [0, 5, 7] = spread_statistics reference_platform [100, 5, 7]"
  using statistics_run_over_all_but_the_oldest [of "[5, 7]" reference_platform 100 6 0]
  by (simp add: reference_platform_def)

section \<open>The signal\<close>

lemma extreme_enough_cases:
  "(extreme_enough n m sd = ETF_RICH \<longleftrightarrow> n > m + sd)
   \<and> (extreme_enough n m sd = FUTURE_RICH \<longleftrightarrow> \<not> n > m + sd \<and> n < m - sd)
   \<and> (extreme_enough n m sd = NEUTRAL \<longleftrightarrow> \<not> n > m + sd \<and> \<not> n < m - sd)
   \<and> extreme_enough n m sd \<noteq> (True, True)"
  by (simp add: extreme_enough_def ETF_RICH_def FUTURE_RICH_def NEUTRAL_def)

lemma thresholds_without_wrap:
  fixes n m sd :: u64
  assumes "uint sd \<le> uint m" and "uint m + uint sd < 2 ^ 64"
  shows "(n > m + sd \<longleftrightarrow> uint n > uint m + uint sd)
         \<and> (\<not> n > m + sd \<and> n < m - sd \<longleftrightarrow> uint n < uint m - uint sd)"
proof -
  have p: "uint (m + sd) = uint m + uint sd"
    using assms(2) by (simp add: uint_word_ariths take_bit_int_eq_self)
  have q: "uint (m - sd) = uint m - uint sd"
    using assms(1) by (simp add: uint_sub_lem [THEN iffD1])
  have nn: "0 \<le> uint sd" by simp
  show ?thesis
    using nn unfolding word_less_def p q by arith
qed

text \<open>
  Where the lower threshold wraps: a spread of 0 against a mean of 0 and a deviation of 1 is
  FUTURE_RICH, since \<open>0 - 1\<close> is \<open>2^64 - 1\<close> in the source, while 0 is not below -1; a spread of
  5 against the same mean and deviation is below the wrapped \<open>0 - 1\<close> as well, and is ETF_RICH
  by the order of the two tests.
\<close>

lemma wrapped_lower_threshold:
  "extreme_enough 0 0 1 = FUTURE_RICH \<and> \<not> uint (0 :: u64) < uint (0 :: u64) - uint (1 :: u64)
   \<and> extreme_enough 5 0 1 = ETF_RICH \<and> (5 :: u64) < 0 - 1"
proof -
  have a: "(0 :: u64) < - 1" by (simp add: word_gt_0)
  have b: "(5 :: u64) < - 1" by (simp add: less_le)
  have c: "\<not> (5 :: u64) < 1" by (simp add: word_less_def)
  show ?thesis
    using a b c by (simp add: extreme_enough_def ETF_RICH_def FUTURE_RICH_def)
qed

text \<open>
  What the evaluator does for every input: ETF_RICH exactly when the newest sample is above
  mean + deviation, FUTURE_RICH exactly when it is not and the newest sample is below
  mean - deviation, both thresholds in unsigned 64-bit arithmetic, and NEUTRAL otherwise; the
  two flags are never both set. Where neither threshold wraps (deviation \<open>\<le>\<close> mean,
  mean + deviation \<open><\<close> \<open>2^64\<close>) these are the comparisons over the integers.
\<close>

lemma signal_classification:
  assumes "spread_statistics pf D = Inr (avgDif, stdDevDif)" and "D \<noteq> []"
  shows "\<exists>s'. deterMineOrderStatus pf D s = Inr s'
     \<and> (ETF_Much_Greater s' \<longleftrightarrow> last D > avgDif + stdDevDif)
     \<and> (FTR_Much_Greater s' \<longleftrightarrow> \<not> last D > avgDif + stdDevDif \<and> last D < avgDif - stdDevDif)
     \<and> \<not> (ETF_Much_Greater s' \<and> FTR_Much_Greater s')
     \<and> (uint stdDevDif \<le> uint avgDif \<and> uint avgDif + uint stdDevDif < 2 ^ 64 \<longrightarrow>
          (ETF_Much_Greater s' \<longleftrightarrow> uint (last D) > uint avgDif + uint stdDevDif)
          \<and> (FTR_Much_Greater s' \<longleftrightarrow> uint (last D) < uint avgDif - uint stdDevDif))"
proof -
  let ?fl = "extreme_enough (last D) avgDif stdDevDif"
  have n: "D ! (length D - Suc 0) = last D"
    using assms(2) by (simp add: last_conv_nth)
  have r: "deterMineOrderStatus pf D s
           = Inr (s\<lparr>ETF_Much_Greater := fst ?fl, FTR_Much_Greater := snd ?fl\<rparr>)"
    using assms by (simp add: deterMineOrderStatus_def signal_flags_def n case_prod_beta)
  have e: "fst ?fl \<longleftrightarrow> last D > avgDif + stdDevDif"
    by (simp add: extreme_enough_def)
  have f: "snd ?fl \<longleftrightarrow> \<not> last D > avgDif + stdDevDif \<and> last D < avgDif - stdDevDif"
    by (simp add: extreme_enough_def)
  show ?thesis
    using thresholds_without_wrap [of stdDevDif avgDif "last D"]
    by (simp only: r) (auto simp: e f)
qed

lemma signal_classification_example:
  "spread_statistics reference_platform [0, 20, 40, 90] = Inr (50, 1) \<and> [0, 20, 40, 90 :: u64] \<noteq> []
   \<and> (\<exists>s'. deterMineOrderStatus reference_platform [0, 20, 40, 90] initial_state = Inr s'
        \<and> ETF_Much_Greater s' \<and> \<not> FTR_Much_Greater s')"
proof -
  have st: "spread_statistics reference_platform [0, 20, 40, 90] = Inr (50, 1)"
    using spread_statistics_Cons [of "[20, 40, 90]" reference_platform 0] by simp
  have ne: "[0, 20, 40, 90 :: u64] \<noteq> []" by simp
  have gt: "(90 :: u64) > 50 + 1" by (simp add: word_less_def)
  show ?thesis
    using signal_classification [OF st ne, of initial_state] st gt by auto
qed

lemma flat_history_statistics: "spread_statistics pf [0, 0, 0] = Inr (0, 1)"
  using spread_statistics_Cons [of "[0, 0]" pf 0] by simp

text \<open>
  What a verdict says about the history: it has at least two samples, the mean is the unsigned
  sum of all samples but the oldest divided by their number, the deviation is 1, and the flags
  are the two unsigned comparisons of the newest sample.
\<close>

lemma signal_flags_Inr:
  assumes "signal_flags pf D = Inr (e, f)"
  shows "2 \<le> length D \<and> length D < 2 ^ 31
     \<and> spread_statistics pf D = Inr (sum_list (tl D) div word_of_nat (length (tl D)), 1)
     \<and> (e \<longleftrightarrow> sum_list (tl D) div word_of_nat (length (tl D)) + 1 < last D)
     \<and> (f \<longleftrightarrow> \<not> sum_list (tl D) div word_of_nat (length (tl D)) + 1 < last D
              \<and> last D < sum_list (tl D) div word_of_nat (length (tl D)) - 1)"
proof -
  from assms obtain m sd where st: "spread_statistics pf D = Inr (m, sd)"
    by (auto simp: signal_flags_def split: sum.splits)
  from assms st have ne: "D \<noteq> []"
    by (auto simp: signal_flags_def split: if_splits)
  from st have l1: "length D \<noteq> 1" and l2: "length D < 2 ^ 31"
    by (auto simp: spread_statistics_def split: if_splits)
  from ne obtain x xs where D: "D = x # xs" by (cases D) auto
  with l1 l2 have xs: "xs \<noteq> []" "length xs < 2 ^ 31 - 1" by auto
  have st': "spread_statistics pf D = Inr (sum_list xs div word_of_nat (length xs), 1)"
    unfolding D using xs by (rule spread_statistics_Cons)
  have n: "D ! (length D - Suc 0) = last D"
    using ne by (simp add: last_conv_nth)
  have fl: "(e, f) = extreme_enough (last D) (sum_list xs div word_of_nat (length xs)) 1"
    using assms ne by (simp add: signal_flags_def st' n)
  have len: "2 \<le> length D" using xs D by (cases xs) auto
  show ?thesis
    using fl len l2 st' by (auto simp: D extreme_enough_def split: if_splits)
qed

text \<open>
  Claim C7. The specification wants FUTURE_RICH exactly when the newest sample is below
  mean - deviation, and lines 81-93 attempt these comparisons. The lower threshold of line 86
  is computed in \<^verbatim>\<open>unsigned long\<close> and wraps whenever the deviation exceeds the mean. On the
  history 0, 0, 0 (both instruments at the same midprice throughout) the mean is 0 and the
  deviation 1: the newest sample 0 is not below -1, so the verdict should be NEUTRAL, and the
  source sets FTR_Much_Greater.
\<close>

theorem flat_spread_is_future_rich:
  "spread_statistics pf [0, 0, 0] = Inr (0, 1)
   \<and> signal_flags pf [0, 0, 0] = Inr FUTURE_RICH
   \<and> extreme_enough 0 0 1 = FUTURE_RICH
   \<and> \<not> uint (0 :: u64) < uint (0 :: u64) - uint (1 :: u64)"
proof -
  have a: "(0 :: u64) < - 1" by (simp add: word_gt_0)
  have e: "extreme_enough 0 0 1 = FUTURE_RICH"
    using a by (simp add: extreme_enough_def FUTURE_RICH_def)
  have f: "signal_flags pf [0, 0, 0] = Inr FUTURE_RICH"
    using e by (simp add: signal_flags_def flat_history_statistics)
  show ?thesis
    using e f flat_history_statistics [of pf] by simp
qed

section \<open>The rolling windows of midprices\<close>

lemma recent_mp_push_length: "length q \<le> 32 \<Longrightarrow> length (recent_mp_push q m) \<le> 32"
  by (auto simp: recent_mp_push_def)

lemma window_fold:
  "length q \<le> 32 \<Longrightarrow> foldl recent_mp_push q ms = drop (length (q @ ms) - 32) (q @ ms)"
proof (induction ms arbitrary: q)
  case Nil
  then show ?case by simp
next
  case (Cons m ms)
  show ?case
  proof (cases "length q \<le> 31")
    case True
    then have "length (q @ [m]) \<le> 32" by simp
    from Cons.IH [OF this] True show ?thesis
      by (simp add: recent_mp_push_def)
  next
    case False
    with Cons.prems have len: "length q = 32" by simp
    then obtain h t where q: "q = h # t" by (cases q) auto
    with len have lt: "length t = 31" by simp
    then have "length (t @ [m]) \<le> 32" by simp
    from Cons.IH [OF this] False q lt show ?thesis
      by (simp add: recent_mp_push_def)
  qed
qed

lemma etf_updates_run:
  assumes "FTR_midprice s = 0"
  shows "\<exists>s'. run pf s (map (\<lambda>m. OrderBook ETF n (fst m) av (snd m) bv) ms) = Inr (s', [])
          \<and> ETF_recent_mp_prices s'
              = foldl recent_mp_push (ETF_recent_mp_prices s)
                  (map (\<lambda>m. (fst m 0 + snd m 0) div 2) ms)"
  using assms
proof (induction ms arbitrary: s)
  case Nil
  then show ?case by simp
next
  case (Cons m ms)
  let ?s1 = "store_snapshot ETF (fst m) (snd m) s"
  have f: "FTR_midprice ?s1 = 0"
    using Cons.prems by (simp add: store_snapshot_def)
  have w: "ETF_recent_mp_prices ?s1
           = recent_mp_push (ETF_recent_mp_prices s) ((fst m 0 + snd m 0) div 2)"
    by (simp add: store_snapshot_def)
  have d: "OrderBookMessageHandler pf ETF n (fst m) av (snd m) bv s = Inr (?s1, [])"
    by (simp add: OrderBookMessageHandler_def market_update_def update_spread_and_trade_def f)
  from Cons.IH [OF f] obtain s' where
    r: "run pf ?s1 (map (\<lambda>m. OrderBook ETF n (fst m) av (snd m) bv) ms) = Inr (s', [])"
    and e: "ETF_recent_mp_prices s'
            = foldl recent_mp_push (ETF_recent_mp_prices ?s1)
                (map (\<lambda>m. (fst m 0 + snd m 0) div 2) ms)"
    by blast
  show ?case
    by (rule exI [of _ s']) (simp add: d r e w)
qed

lemma thirty_one_updates:
  "\<exists>s'. run pf initial_state (replicate 31 (OrderBook ETF n ap av bp bv)) = Inr (s', [])
        \<and> ETF_recent_mp_prices s' = replicate 31 ((ap 0 + bp 0) div 2)"
proof -
  have i: "FTR_midprice initial_state = 0" "ETF_recent_mp_prices initial_state = []"
    by (simp_all add: initial_state_def)
  have m: "map (\<lambda>m. OrderBook ETF n (fst m) av (snd m) bv) (replicate 31 (ap, bp))
           = replicate 31 (OrderBook ETF n ap av bp bv)"
    by (simp only: map_replicate fst_conv snd_conv)
  have v: "map (\<lambda>m. (fst m 0 + snd m 0) div 2) (replicate 31 (ap, bp))
           = replicate 31 ((ap 0 + bp 0) div 2)"
    by (simp only: map_replicate fst_conv snd_conv)
  have "foldl recent_mp_push [] (replicate 31 ((ap 0 + bp 0) div 2))
        = replicate 31 ((ap 0 + bp 0) div 2)"
    using window_fold [of "[]" "replicate 31 ((ap 0 + bp 0) div 2)"] by simp
  with etf_updates_run [OF i(1), of pf n av bv "replicate 31 (ap, bp)"] show ?thesis
    by (simp only: m v i(2))
qed

text \<open>
  Claim C5. The specification, and the comment of lines 148 and 228 (rolling avg for thirty),
  want a window of at most 30 midprices. The guard \<^verbatim>\<open>size() <= 31\<close> lets the window grow
  to 32: after any number of midprices recorded into an empty window it holds the most recent
  32 of them in arrival order, and 31 book updates of the ETF from the initial state leave 31
  midprices in its window.
\<close>

theorem window_holds_the_last_32:
  "foldl recent_mp_push [] ms = drop (length ms - 32) ms
   \<and> (\<exists>s'. run pf initial_state (replicate 31 (OrderBook ETF n ap av bp bv)) = Inr (s', [])
         \<and> length (ETF_recent_mp_prices s') = 31)"
proof -
  from thirty_one_updates [of pf n ap av bp bv] obtain s' where
    "run pf initial_state (replicate 31 (OrderBook ETF n ap av bp bv)) = Inr (s', [])"
    and "ETF_recent_mp_prices s' = replicate 31 ((ap 0 + bp 0) div 2)"
    by blast
  then have "\<exists>s'. run pf initial_state (replicate 31 (OrderBook ETF n ap av bp bv)) = Inr (s', [])
         \<and> length (ETF_recent_mp_prices s') = 31"
    by auto
  then show ?thesis
    using window_fold [of "[]" ms] by simp
qed

lemma store_snapshot_window:
  "ETF_recent_mp_prices (store_snapshot ETF ap bp s)
     = recent_mp_push (ETF_recent_mp_prices s) ((ap 0 + bp 0) div 2)
   \<and> FTR_recent_mp_prices (store_snapshot FUTURE ap bp s)
     = recent_mp_push (FTR_recent_mp_prices s) ((ap 0 + bp 0) div 2)
   \<and> ETF_recent_mp_prices (store_snapshot FUTURE ap bp s) = ETF_recent_mp_prices s
   \<and> FTR_recent_mp_prices (store_snapshot ETF ap bp s) = FTR_recent_mp_prices s"
  by (simp add: store_snapshot_def)

section \<open>Signed and unsigned readings\<close>

text \<open>
  The positions are compared and updated in unsigned arithmetic; these lemmas give the signed
  reading where nothing overflows.
\<close>

lemma sint_of_small:
  fixes v :: u64
  assumes "uint v < 2 ^ 63"
  shows "sint v = uint v"
proof -
  have "sint v = signed_take_bit 63 (uint v)" by (simp add: sint_uint)
  also have "\<dots> = uint v"
  proof (rule signed_take_bit_int_eq_self)
    have "0 \<le> uint v" and "(0 :: int) \<le> 2 ^ 63" by simp_all
    then show "- (2 ^ 63) \<le> uint v" by linarith
    show "uint v < 2 ^ 63" using assms .
  qed
  finally show ?thesis .
qed

lemma signed_subtraction:
  fixes w v :: u64
  assumes "uint v < 2 ^ 63" and "- (2 ^ 63) \<le> sint w - uint v"
  shows "sint (w - v) = sint w - uint v"
proof -
  have lt: "sint w < 2 ^ 63" using sint_lt [of w] by simp
  have nn: "0 \<le> uint v" by simp
  have "sint (w - v) = signed_take_bit 63 (sint w - sint v)"
    by (simp add: sint_word_diff)
  also have "\<dots> = signed_take_bit 63 (sint w - uint v)"
    using assms(1) by (simp add: sint_of_small)
  also have "\<dots> = sint w - uint v"
    using assms(2) lt nn by (intro signed_take_bit_int_eq_self) linarith+
  finally show ?thesis .
qed

lemma signed_addition:
  fixes w v :: u64
  assumes "uint v < 2 ^ 63" and "sint w + uint v < 2 ^ 63"
  shows "sint (w + v) = sint w + uint v"
proof -
  have ge: "- (2 ^ 63) \<le> sint w" using sint_ge [of w] by simp
  have nn: "0 \<le> uint v" by simp
  have "sint (w + v) = signed_take_bit 63 (sint w + sint v)"
    by (simp add: sint_word_add)
  also have "\<dots> = signed_take_bit 63 (sint w + uint v)"
    using assms(1) by (simp add: sint_of_small)
  also have "\<dots> = sint w + uint v"
    using assms(2) ge nn by (intro signed_take_bit_int_eq_self) linarith+
  finally show ?thesis .
qed

lemma above_minus_100:
  fixes w :: u64
  assumes "w > - 100"
  shows "- 100 < sint w \<and> sint w < 0"
proof -
  have u: "2 ^ 64 - 100 < uint w"
    using assms by (simp add: word_less_def)
  have m: "uint w = sint w mod 2 ^ 64"
    by (simp add: uint_sint take_bit_eq_mod)
  have lt: "sint w < 2 ^ 63" using sint_lt [of w] by simp
  have ge: "- (2 ^ 63) \<le> sint w" using sint_ge [of w] by simp
  show ?thesis
  proof (cases "0 \<le> sint w")
    case True
    with lt have "sint w mod 2 ^ 64 = sint w" by (intro mod_pos_pos_trivial) simp_all
    with m u lt show ?thesis by simp
  next
    case False
    have "(sint w + 2 ^ 64) mod 2 ^ 64 = sint w + 2 ^ 64"
      using False ge by (intro mod_pos_pos_trivial) simp_all
    then have "sint w mod 2 ^ 64 = sint w + 2 ^ 64" by simp
    with m u False show ?thesis by simp
  qed
qed

lemma wrapped_difference:
  fixes e f :: u64
  shows "uint (e - f) = (uint e - uint f) mod 2 ^ 64
         \<and> (e < f \<longrightarrow> uint (e - f) = 2 ^ 64 - (uint f - uint e))"
proof -
  have m: "uint (e - f) = (uint e - uint f) mod 2 ^ 64"
    by (simp add: uint_word_ariths take_bit_eq_mod)
  have "uint (e - f) = 2 ^ 64 - (uint f - uint e)" if "e < f"
  proof -
    from that have lt: "uint e < uint f" by (simp add: word_less_def)
    have b: "uint f < 2 ^ 64" using uint_lt2p [of f] by simp
    have nn: "0 \<le> uint e" by simp
    have "(uint e - uint f + 2 ^ 64) mod 2 ^ 64 = uint e - uint f + 2 ^ 64"
      using lt b nn by (intro mod_pos_pos_trivial) linarith+
    then have "(uint e - uint f) mod 2 ^ 64 = uint e - uint f + 2 ^ 64" by simp
    with m show ?thesis by simp
  qed
  with m show ?thesis by blast
qed

lemma uint_sum_list:
  "uint (sum_list xs :: u64) = (\<Sum>x\<leftarrow>xs. uint x) mod 2 ^ 64"
proof (induction xs)
  case Nil
  then show ?case by simp
next
  case (Cons x xs)
  have "uint (x + sum_list xs) = (uint x + uint (sum_list xs)) mod 2 ^ 64"
    by (simp add: uint_word_ariths take_bit_eq_mod)
  also have "\<dots> = (uint x + (\<Sum>x\<leftarrow>xs. uint x)) mod 2 ^ 64"
    by (simp add: Cons.IH mod_add_right_eq)
  finally show ?case by simp
qed

lemma uint_length:
  assumes "n < 2 ^ 31"
  shows "uint (word_of_nat n :: u64) = int n"
proof -
  have "n < 2 ^ 64" using assms by (rule less_trans) simp
  then have "unat (word_of_nat n :: u64) = n" by (simp add: unat_of_nat)
  then show ?thesis by (simp add: uint_nat)
qed

lemma lot_size_word: "(word_of_int LOT_SIZE :: u64) = 10"
  by (simp add: LOT_SIZE_def)

section \<open>The order callbacks\<close>

subsection \<open>Fills\<close>

lemma nearest_ticks:
  "(0 \<le> MAXIMUM_ASK pf \<longrightarrow>
      MAX_ASK_NEAREST_TICK pf mod TICK_SIZE_IN_CENTS = 0
      \<and> MAX_ASK_NEAREST_TICK pf \<le> MAXIMUM_ASK pf
      \<and> MAXIMUM_ASK pf < MAX_ASK_NEAREST_TICK pf + TICK_SIZE_IN_CENTS)
   \<and> (0 \<le> MINIMUM_BID pf \<longrightarrow>
      MIN_BID_NEARST_TICK pf mod TICK_SIZE_IN_CENTS = 0
      \<and> MINIMUM_BID pf < MIN_BID_NEARST_TICK pf
      \<and> MIN_BID_NEARST_TICK pf \<le> MINIMUM_BID pf + TICK_SIZE_IN_CENTS)"
  by (auto simp: MAX_ASK_NEAREST_TICK_def MIN_BID_NEARST_TICK_def TICK_SIZE_IN_CENTS_def c_div_def
      sgn_if)

text \<open>
  Claim C8. A fill for a tracked ask subtracts the fill volume from the position and sends
  exactly one hedge order, a BUY of the fill volume at MAX_ASK_NEAREST_TICK; a fill for a tracked
  bid (an id of the bid set that is not in the ask set, which the handler tests first) adds the
  fill volume and sends exactly one hedge order, a SELL of the fill volume at
  MIN_BID_NEARST_TICK; a fill for an untracked id leaves the state as it is and sends nothing.
  The hedge takes the next message id, and nothing else of the state changes. The two prices
  are the extreme ticks: the highest multiple of the tick size not above MAXIMUM_ASK, and the
  lowest multiple of the tick size above MINIMUM_BID. Where the signed position does not
  overflow, the change is the fill volume over the integers.
\<close>

theorem fill_moves_position_and_hedges:
  "(c \<in> mAsks s \<longrightarrow>
      OrderFilledMessageHandler pf c p v s
        = (s\<lparr>mPosition := mPosition s - v, mNextMessageId := mNextMessageId s + 1\<rparr>,
           [SendHedgeOrder (mNextMessageId s) BUY (word_of_int (MAX_ASK_NEAREST_TICK pf)) v None]))
   \<and> (c \<notin> mAsks s \<and> c \<in> mBids s \<longrightarrow>
      OrderFilledMessageHandler pf c p v s
        = (s\<lparr>mPosition := mPosition s + v, mNextMessageId := mNextMessageId s + 1\<rparr>,
           [SendHedgeOrder (mNextMessageId s) SELL (word_of_int (MIN_BID_NEARST_TICK pf)) v None]))
   \<and> (c \<notin> mAsks s \<and> c \<notin> mBids s \<longrightarrow> OrderFilledMessageHandler pf c p v s = (s, []))
   \<and> (0 \<le> MAXIMUM_ASK pf \<longrightarrow>
        MAX_ASK_NEAREST_TICK pf mod TICK_SIZE_IN_CENTS = 0
        \<and> MAX_ASK_NEAREST_TICK pf \<le> MAXIMUM_ASK pf
        \<and> MAXIMUM_ASK pf < MAX_ASK_NEAREST_TICK pf + TICK_SIZE_IN_CENTS)
   \<and> (0 \<le> MINIMUM_BID pf \<longrightarrow>
        MIN_BID_NEARST_TICK pf mod TICK_SIZE_IN_CENTS = 0
        \<and> MINIMUM_BID pf < MIN_BID_NEARST_TICK pf
        \<and> MIN_BID_NEARST_TICK pf \<le> MINIMUM_BID pf + TICK_SIZE_IN_CENTS)
   \<and> (uint v < 2 ^ 63 \<and> - (2 ^ 63) \<le> sint (mPosition s) - uint v \<longrightarrow>
        sint (mPosition s - v) = sint (mPosition s) - uint v)
   \<and> (uint v < 2 ^ 63 \<and> sint (mPosition s) + uint v < 2 ^ 63 \<longrightarrow>
        sint (mPosition s + v) = sint (mPosition s) + uint v)"
proof -
  have a: "c \<in> mAsks s \<longrightarrow>
      OrderFilledMessageHandler pf c p v s
        = (s\<lparr>mPosition := mPosition s - v, mNextMessageId := mNextMessageId s + 1\<rparr>,
           [SendHedgeOrder (mNextMessageId s) BUY (word_of_int (MAX_ASK_NEAREST_TICK pf)) v None])"
    by (simp add: OrderFilledMessageHandler_def)
  have b: "c \<notin> mAsks s \<and> c \<in> mBids s \<longrightarrow>
      OrderFilledMessageHandler pf c p v s
        = (s\<lparr>mPosition := mPosition s + v, mNextMessageId := mNextMessageId s + 1\<rparr>,
           [SendHedgeOrder (mNextMessageId s) SELL (word_of_int (MIN_BID_NEARST_TICK pf)) v None])"
    by (simp add: OrderFilledMessageHandler_def)
  have n: "c \<notin> mAsks s \<and> c \<notin> mBids s \<longrightarrow> OrderFilledMessageHandler pf c p v s = (s, [])"
    by (simp add: OrderFilledMessageHandler_def)
  show ?thesis
    using a b n nearest_ticks [of pf] signed_subtraction [of v "mPosition s"]
      signed_addition [of v "mPosition s"]
    by blast
qed

theorem fill_moves_position_and_hedges_witness:
  "7 \<in> mAsks tracked_state
   \<and> sint (mPosition (fst (OrderFilledMessageHandler reference_platform 7 19900 10 tracked_state))) = - 10
   \<and> snd (OrderFilledMessageHandler reference_platform 7 19900 10 tracked_state)
       = [SendHedgeOrder 0 BUY 2147483600 10 None]
   \<and> 9 \<notin> mAsks tracked_state \<and> 9 \<in> mBids tracked_state
   \<and> sint (mPosition (fst (OrderFilledMessageHandler reference_platform 9 20100 10 tracked_state))) = 10
   \<and> snd (OrderFilledMessageHandler reference_platform 9 20100 10 tracked_state)
       = [SendHedgeOrder 0 SELL 100 10 None]
   \<and> 5 \<notin> mAsks tracked_state \<and> 5 \<notin> mBids tracked_state
   \<and> OrderFilledMessageHandler reference_platform 5 20100 10 tracked_state = (tracked_state, [])
   \<and> 0 \<le> MAXIMUM_ASK reference_platform \<and> MAX_ASK_NEAREST_TICK reference_platform = 2147483600
   \<and> 0 \<le> MINIMUM_BID reference_platform \<and> MIN_BID_NEARST_TICK reference_platform = 100"
proof -
  have m: "mAsks tracked_state = {7}" "mBids tracked_state = {9}"
    "mPosition tracked_state = 0" "mNextMessageId tracked_state = 0"
    by (simp_all add: tracked_state_def initial_state_def)
  have t: "MAX_ASK_NEAREST_TICK reference_platform = 2147483600"
    "MIN_BID_NEARST_TICK reference_platform = 100"
    by (simp_all add: MAX_ASK_NEAREST_TICK_def MIN_BID_NEARST_TICK_def TICK_SIZE_IN_CENTS_def
        c_div_def reference_platform_def)
  have l: "MAXIMUM_ASK reference_platform = 2147483647" "MINIMUM_BID reference_platform = 1"
    by (simp_all add: reference_platform_def)
  show ?thesis
    using fill_moves_position_and_hedges [of 7 tracked_state reference_platform 19900 10]
      fill_moves_position_and_hedges [of 9 tracked_state reference_platform 20100 10]
      fill_moves_position_and_hedges [of 5 tracked_state reference_platform 20100 10]
    by (simp add: m t l)
qed

subsection \<open>Errors\<close>

text \<open>
  Claim C9. An error for a nonzero id that is in the ask set or the bid set is handled exactly
  as the status update with fill volume 0 and remaining volume 0: the id leaves both sets, the
  slot that holds it (mAskId, else mBidId) is set to 0, every other id stays where it was and
  nothing else of the state changes. An error for any other id leaves the state as it is. In
  both cases no call is made into the gateway, so nothing is retried.
\<close>

theorem error_force_closes_tracked_order:
  "(c \<noteq> 0 \<and> (c \<in> mAsks s \<or> c \<in> mBids s) \<longrightarrow>
      ErrorMessageHandler c msg s = OrderStatusMessageHandler c 0 0 0 s
      \<and> ErrorMessageHandler c msg s
          = s\<lparr>mAskId := (if c = mAskId s then 0 else mAskId s),
              mBidId := (if c \<noteq> mAskId s \<and> c = mBidId s then 0 else mBidId s),
              mAsks := mAsks s - {c}, mBids := mBids s - {c}\<rparr>
      \<and> c \<notin> mAsks (ErrorMessageHandler c msg s) \<and> c \<notin> mBids (ErrorMessageHandler c msg s)
      \<and> (\<forall>c'. c' \<noteq> c \<longrightarrow>
            (c' \<in> mAsks (ErrorMessageHandler c msg s) \<longleftrightarrow> c' \<in> mAsks s)
            \<and> (c' \<in> mBids (ErrorMessageHandler c msg s) \<longleftrightarrow> c' \<in> mBids s)))
   \<and> (\<not> (c \<noteq> 0 \<and> (c \<in> mAsks s \<or> c \<in> mBids s)) \<longrightarrow> ErrorMessageHandler c msg s = s)
   \<and> deliver pf s (ErrorMessage c msg) = Inr (ErrorMessageHandler c msg s, [])"
  by (auto simp: ErrorMessageHandler_def OrderStatusMessageHandler_def Let_def)

theorem error_force_closes_tracked_order_witness:
  "(7 :: u64) \<noteq> 0 \<and> 7 \<in> mAsks tracked_state
   \<and> mAsks (ErrorMessageHandler 7 ''rejected'' tracked_state) = {}
   \<and> mBids (ErrorMessageHandler 7 ''rejected'' tracked_state) = {9}
   \<and> mAskId (ErrorMessageHandler 7 ''rejected'' tracked_state) = 0
   \<and> mBidId (ErrorMessageHandler 7 ''rejected'' tracked_state) = 9
   \<and> 5 \<notin> mAsks tracked_state \<and> 5 \<notin> mBids tracked_state
   \<and> ErrorMessageHandler 5 ''unknown'' tracked_state = tracked_state"
proof -
  have m: "mAsks tracked_state = {7}" "mBids tracked_state = {9}"
    "mAskId tracked_state = 7" "mBidId tracked_state = 9"
    by (simp_all add: tracked_state_def initial_state_def)
  have p7: "(7 :: u64) \<noteq> 0 \<and> (7 \<in> mAsks tracked_state \<or> 7 \<in> mBids tracked_state)"
    by (simp add: m)
  have p5: "\<not> ((5 :: u64) \<noteq> 0 \<and> (5 \<in> mAsks tracked_state \<or> 5 \<in> mBids tracked_state))"
    by (simp add: m)
  have e7: "ErrorMessageHandler 7 ''rejected'' tracked_state
          = tracked_state\<lparr>mAskId := (if 7 = mAskId tracked_state then 0 else mAskId tracked_state),
              mBidId := (if 7 \<noteq> mAskId tracked_state \<and> 7 = mBidId tracked_state then 0
                         else mBidId tracked_state),
              mAsks := mAsks tracked_state - {7}, mBids := mBids tracked_state - {7}\<rparr>"
    using error_force_closes_tracked_order [of 7 tracked_state "''rejected''" reference_platform] p7
    by blast
  have e5: "ErrorMessageHandler 5 ''unknown'' tracked_state = tracked_state"
    using error_force_closes_tracked_order [of 5 tracked_state "''unknown''" reference_platform] p5
    by blast
  show ?thesis
    by (simp add: e7 e5 m)
qed

section \<open>The market-update handlers\<close>

subsection \<open>What a market update can change\<close>

lemma trade_on_signal_frame:
  "ETF_Pos (fst (trade_on_signal s)) = ETF_Pos s
   \<and> FTR_Pos (fst (trade_on_signal s)) = FTR_Pos s
   \<and> mPosition (fst (trade_on_signal s)) = mPosition s
   \<and> DIFF_recent_mp_prices (fst (trade_on_signal s)) = DIFF_recent_mp_prices s
   \<and> ETF_recent_mp_prices (fst (trade_on_signal s)) = ETF_recent_mp_prices s
   \<and> FTR_recent_mp_prices (fst (trade_on_signal s)) = FTR_recent_mp_prices s
   \<and> ETF_midprice (fst (trade_on_signal s)) = ETF_midprice s
   \<and> FTR_midprice (fst (trade_on_signal s)) = FTR_midprice s
   \<and> ETF_Much_Greater (fst (trade_on_signal s)) = ETF_Much_Greater s
   \<and> FTR_Much_Greater (fst (trade_on_signal s)) = FTR_Much_Greater s
   \<and> mAsks (fst (trade_on_signal s)) = mAsks s
   \<and> mBids (fst (trade_on_signal s)) = mBids s"
  by (simp add: trade_on_signal_def)

lemma trade_on_signal_insert_volume:
  assumes "SendInsertOrder c sd p v l \<in> set (snd (trade_on_signal s))"
  shows "v \<le> 10 \<and> (sd = SELL \<longrightarrow> ETF_Pos s - v > - 100)"
  using assms
  by (auto simp: trade_on_signal_def lot_size_word split: if_splits)

lemma trade_on_signal_volumes:
  "\<forall>c \<in> set (snd (trade_on_signal s)). call_volume c \<le> 10"
  by (simp add: trade_on_signal_def lot_size_word)

lemma store_snapshot_frame:
  "ETF_Pos (store_snapshot i ap bp s) = ETF_Pos s
   \<and> FTR_Pos (store_snapshot i ap bp s) = FTR_Pos s
   \<and> mPosition (store_snapshot i ap bp s) = mPosition s
   \<and> mAsks (store_snapshot i ap bp s) = mAsks s
   \<and> mBids (store_snapshot i ap bp s) = mBids s
   \<and> DIFF_recent_mp_prices (store_snapshot i ap bp s) = DIFF_recent_mp_prices s
   \<and> ETF_Much_Greater (store_snapshot i ap bp s) = ETF_Much_Greater s
   \<and> FTR_Much_Greater (store_snapshot i ap bp s) = FTR_Much_Greater s"
  by (cases i) (simp_all add: store_snapshot_def)

lemma store_snapshot_consistent:
  "windows_consistent s \<Longrightarrow> windows_consistent (store_snapshot i ap bp s)"
  by (cases i) (simp_all add: windows_consistent_def store_snapshot_def recent_mp_push_def)

lemma deterMineOrderStatus_Inr:
  assumes "deterMineOrderStatus pf D s = Inr s1"
  shows "signal_flags pf D = Inr (ETF_Much_Greater s1, FTR_Much_Greater s1)
         \<and> s1 = s\<lparr>ETF_Much_Greater := ETF_Much_Greater s1, FTR_Much_Greater := FTR_Much_Greater s1\<rparr>"
  using assms
  by (auto simp: deterMineOrderStatus_def split: sum.splits prod.splits)

lemma append_spread_Inr:
  assumes "append_spread pf s = Inr s1"
  shows "(s1 = s \<and> length (ETF_recent_mp_prices s) \<noteq> length (FTR_recent_mp_prices s))
         \<or> (length (ETF_recent_mp_prices s) = length (FTR_recent_mp_prices s)
            \<and> ETF_recent_mp_prices s \<noteq> []
            \<and> signal_flags pf (DIFF_recent_mp_prices s1)
                = Inr (ETF_Much_Greater s1, FTR_Much_Greater s1)
            \<and> s1 = s\<lparr>DIFF_recent_mp_prices :=
                        DIFF_recent_mp_prices s
                        @ [last (ETF_recent_mp_prices s) - last (FTR_recent_mp_prices s)],
                      ETF_Much_Greater := ETF_Much_Greater s1,
                      FTR_Much_Greater := FTR_Much_Greater s1\<rparr>)"
proof (cases "length (ETF_recent_mp_prices s) = length (FTR_recent_mp_prices s)")
  case False
  with assms show ?thesis by (simp add: append_spread_def)
next
  case True
  with assms have ne: "ETF_recent_mp_prices s \<noteq> []"
    by (auto simp: append_spread_def split: if_splits)
  with True have nf: "FTR_recent_mp_prices s \<noteq> []" by auto
  let ?D = "DIFF_recent_mp_prices s
            @ [last (ETF_recent_mp_prices s) - last (FTR_recent_mp_prices s)]"
  have le: "ETF_recent_mp_prices s ! (length (ETF_recent_mp_prices s) - 1)
            = last (ETF_recent_mp_prices s)"
    using ne by (simp add: last_conv_nth)
  have lf: "FTR_recent_mp_prices s ! (length (FTR_recent_mp_prices s) - 1)
            = last (FTR_recent_mp_prices s)"
    using nf by (simp add: last_conv_nth)
  have "deterMineOrderStatus pf ?D (s\<lparr>DIFF_recent_mp_prices := ?D\<rparr>) = Inr s1"
    using assms True ne le lf by (simp add: append_spread_def Let_def)
  from deterMineOrderStatus_Inr [OF this]
  have fl: "signal_flags pf ?D = Inr (ETF_Much_Greater s1, FTR_Much_Greater s1)"
    and eq: "s1 = s\<lparr>DIFF_recent_mp_prices := ?D\<rparr>
                   \<lparr>ETF_Much_Greater := ETF_Much_Greater s1, FTR_Much_Greater := FTR_Much_Greater s1\<rparr>"
    by blast+
  have d: "DIFF_recent_mp_prices s1 = ?D"
    by (subst eq) simp
  show ?thesis
    using True ne fl eq by (simp only: d) simp
qed

lemma append_spread_frame:
  assumes "append_spread pf s = Inr s1"
  shows "ETF_Pos s1 = ETF_Pos s \<and> FTR_Pos s1 = FTR_Pos s \<and> mPosition s1 = mPosition s
         \<and> mAsks s1 = mAsks s \<and> mBids s1 = mBids s
         \<and> ETF_midprice s1 = ETF_midprice s \<and> FTR_midprice s1 = FTR_midprice s
         \<and> ETF_recent_mp_prices s1 = ETF_recent_mp_prices s
         \<and> FTR_recent_mp_prices s1 = FTR_recent_mp_prices s"
proof -
  from append_spread_Inr [OF assms] consider
    (same) "s1 = s"
    | (sample) e f where "s1 = s\<lparr>DIFF_recent_mp_prices :=
                        DIFF_recent_mp_prices s
                        @ [last (ETF_recent_mp_prices s) - last (FTR_recent_mp_prices s)],
                      ETF_Much_Greater := e, FTR_Much_Greater := f\<rparr>"
    by blast
  then show ?thesis
  proof cases
    case same
    then show ?thesis by simp
  next
    case sample
    show ?thesis by (subst sample)+ simp
  qed
qed

lemma market_update_Inr:
  assumes "market_update pf i ap av bp bv s = Inr (s', cs)"
  shows "(s' = store_snapshot i ap bp s \<and> cs = [])
         \<or> (\<exists>s1. append_spread pf (store_snapshot i ap bp s) = Inr s1
                 \<and> trade_on_signal s1 = (s', cs))"
  using assms
  by (auto simp: market_update_def update_spread_and_trade_def split: if_splits sum.splits)

lemma market_update_positions:
  assumes "market_update pf i ap av bp bv s = Inr (s', cs)"
  shows "ETF_Pos s' = ETF_Pos s \<and> FTR_Pos s' = FTR_Pos s \<and> mPosition s' = mPosition s
         \<and> (\<forall>c \<in> set cs. call_volume c \<le> 10)
         \<and> (\<forall>c p v l. SendInsertOrder c SELL p v l \<in> set cs \<longrightarrow>
               - 100 < sint (ETF_Pos s - v) \<and> sint (ETF_Pos s - v) < 0)"
proof -
  from market_update_Inr [OF assms] consider
    (quiet) "s' = store_snapshot i ap bp s" and "cs = []"
    | (trade) s1 where "append_spread pf (store_snapshot i ap bp s) = Inr s1"
        and "trade_on_signal s1 = (s', cs)"
    by blast
  then show ?thesis
  proof cases
    case quiet
    then show ?thesis by (simp add: store_snapshot_frame)
  next
    case trade
    have p1: "ETF_Pos s1 = ETF_Pos s \<and> FTR_Pos s1 = FTR_Pos s \<and> mPosition s1 = mPosition s"
      using append_spread_frame [OF trade(1)] by (simp add: store_snapshot_frame)
    have s': "s' = fst (trade_on_signal s1)" and cs: "cs = snd (trade_on_signal s1)"
      using trade(2) by simp_all
    have pos: "ETF_Pos s' = ETF_Pos s \<and> FTR_Pos s' = FTR_Pos s \<and> mPosition s' = mPosition s"
      using p1 trade_on_signal_frame [of s1] by (simp add: s')
    have vol: "\<forall>c \<in> set cs. call_volume c \<le> 10"
      using trade_on_signal_volumes [of s1] by (simp add: cs)
    have sell: "\<forall>c p v l. SendInsertOrder c SELL p v l \<in> set cs \<longrightarrow>
               - 100 < sint (ETF_Pos s - v) \<and> sint (ETF_Pos s - v) < 0"
    proof (intro allI impI)
      fix c p v l
      assume "SendInsertOrder c SELL p v l \<in> set cs"
      then have "ETF_Pos s1 - v > - 100"
        using trade_on_signal_insert_volume [of c SELL p v l s1] by (simp add: cs)
      then have "ETF_Pos s - v > - 100" using p1 by simp
      then show "- 100 < sint (ETF_Pos s - v) \<and> sint (ETF_Pos s - v) < 0"
        by (rule above_minus_100)
    qed
    from pos vol sell show ?thesis by blast
  qed
qed

subsection \<open>The volume of the orders\<close>

text \<open>
  The volumes of the update are never read, and no order of a market update is above the lot
  size.
\<close>

lemma market_update_ignores_volumes:
  "market_update pf i ap av bp bv s = market_update pf i ap av' bp bv' s"
  by (simp add: market_update_def)

lemma sell_signal_update:
  "\<exists>s'. market_update pf ETF (\<lambda>i. 20100) av (\<lambda>i. 19900) bv sell_signal_state
         = Inr (s', [SendInsertOrder 0 SELL 19900 10 GOOD_FOR_DAY,
                     SendHedgeOrder 0 BUY 10100 0 (Some GOOD_FOR_DAY)])"
proof -
  have f: "ETF_Much_Greater sell_signal_state" "FTR_midprice sell_signal_state = 10000"
    "ETF_recent_mp_prices sell_signal_state = []"
    "FTR_recent_mp_prices sell_signal_state = [10000, 10000]"
    "ETF_Pos sell_signal_state = 0" "mAskID sell_signal_state = 0"
    "FTR_bestAsk sell_signal_state = 10100" "FTR_ask_vol_arr sell_signal_state 0 = 0"
    by (simp_all add: sell_signal_state_def initial_state_def)
  have h: "(0 :: u64) - min 10 19900 > - 100"
    by (simp add: word_less_def)
  show ?thesis
    using h
    by (simp add: market_update_def update_spread_and_trade_def
        store_snapshot_def recent_mp_push_def append_spread_def trade_on_signal_def f
        lot_size_word)
qed

text \<open>
  Claim C6. The specification wants every order sized by the minimum of the lot size and the
  displayed volume on the relevant side. The insert leg is sized by
  \<^verbatim>\<open>min(LOT_SIZE, ETF_bid_arr[0])\<close>, and \<^verbatim>\<open>ETF_bid_arr\<close> holds the bid prices (line 142);
  the hedge leg is sized by \<^verbatim>\<open>FTR_ask_vol_arr[0]\<close>, which no statement of the source
  assigns. With the sell signal up, an ETF book with 3 lots bid at 19900 gets a sell order of
  10 lots, more than is displayed, and the hedge is sized 0, the initial content of
  \<^verbatim>\<open>FTR_ask_vol_arr\<close>.
\<close>

theorem insert_volume_is_capped_by_the_price:
  "map_sum id snd
     (OrderBookMessageHandler pf ETF 1 (\<lambda>i. 20100) (\<lambda>i. 7) (\<lambda>i. 19900) (\<lambda>i. 3) sell_signal_state)
   = Inr [SendInsertOrder 0 SELL 19900 10 GOOD_FOR_DAY,
          SendHedgeOrder 0 BUY 10100 0 (Some GOOD_FOR_DAY)]"
proof -
  obtain s' where
    "market_update pf ETF (\<lambda>i. 20100) (\<lambda>i. 7) (\<lambda>i. 19900) (\<lambda>i. 3) sell_signal_state
       = Inr (s', [SendInsertOrder 0 SELL 19900 10 GOOD_FOR_DAY,
                   SendHedgeOrder 0 BUY 10100 0 (Some GOOD_FOR_DAY)])"
    using sell_signal_update [of pf "\<lambda>i. 7" "\<lambda>i. 3"] by blast
  then show ?thesis by (simp add: OrderBookMessageHandler_def)
qed

subsection \<open>The spread sample\<close>

lemma market_update_sample:
  assumes "windows_consistent s"
      and "market_update pf i ap av bp bv s = Inr (s', cs)"
      and "DIFF_recent_mp_prices s' \<noteq> DIFF_recent_mp_prices s"
  shows "DIFF_recent_mp_prices s' = DIFF_recent_mp_prices s @ [ETF_midprice s' - FTR_midprice s']
         \<and> signal_flags pf (DIFF_recent_mp_prices s') = Inr (ETF_Much_Greater s', FTR_Much_Greater s')"
proof -
  let ?s0 = "store_snapshot i ap bp s"
  have d0: "DIFF_recent_mp_prices ?s0 = DIFF_recent_mp_prices s"
    by (simp add: store_snapshot_frame)
  from market_update_Inr [OF assms(2)] assms(3) d0 obtain s1
    where a: "append_spread pf ?s0 = Inr s1" and t: "trade_on_signal s1 = (s', cs)"
    by auto
  have s': "s' = fst (trade_on_signal s1)" using t by simp
  have k: "DIFF_recent_mp_prices s' = DIFF_recent_mp_prices s1"
    "ETF_midprice s' = ETF_midprice s1" "FTR_midprice s' = FTR_midprice s1"
    "ETF_Much_Greater s' = ETF_Much_Greater s1" "FTR_Much_Greater s' = FTR_Much_Greater s1"
    using trade_on_signal_frame [of s1] by (simp_all add: s')
  have m: "ETF_midprice s1 = ETF_midprice ?s0" "FTR_midprice s1 = FTR_midprice ?s0"
    using append_spread_frame [OF a] by simp_all
  have c0: "windows_consistent ?s0" using assms(1) by (rule store_snapshot_consistent)
  from append_spread_Inr [OF a] assms(3) d0 k(1)
  have len: "length (ETF_recent_mp_prices ?s0) = length (FTR_recent_mp_prices ?s0)"
    and ne: "ETF_recent_mp_prices ?s0 \<noteq> []"
    and fl: "signal_flags pf (DIFF_recent_mp_prices s1) = Inr (ETF_Much_Greater s1, FTR_Much_Greater s1)"
    and eq: "s1 = ?s0\<lparr>DIFF_recent_mp_prices :=
                        DIFF_recent_mp_prices ?s0
                        @ [last (ETF_recent_mp_prices ?s0) - last (FTR_recent_mp_prices ?s0)],
                      ETF_Much_Greater := ETF_Much_Greater s1,
                      FTR_Much_Greater := FTR_Much_Greater s1\<rparr>"
    by auto
  from len ne have nf: "FTR_recent_mp_prices ?s0 \<noteq> []" by auto
  have le: "last (ETF_recent_mp_prices ?s0) = ETF_midprice ?s0"
    and lf: "last (FTR_recent_mp_prices ?s0) = FTR_midprice ?s0"
    using c0 ne nf by (simp_all add: windows_consistent_def)
  have d1: "DIFF_recent_mp_prices s1
            = DIFF_recent_mp_prices ?s0
              @ [last (ETF_recent_mp_prices ?s0) - last (FTR_recent_mp_prices ?s0)]"
    by (subst eq) simp
  show ?thesis
    using d1 d0 le lf fl by (simp add: k m)
qed

lemma windows_consistent_initial: "windows_consistent initial_state"
  by (simp add: windows_consistent_def initial_state_def)

lemma windows_consistent_deliver:
  assumes "windows_consistent s" and "deliver pf s cb = Inr (s', cs)"
  shows "windows_consistent s'"
proof -
  have mk: "windows_consistent s'" if "market_update pf i ap av bp bv s = Inr (s', cs)"
    for i ap av bp bv
  proof -
    let ?s0 = "store_snapshot i ap bp s"
    have c0: "windows_consistent ?s0" using assms(1) by (rule store_snapshot_consistent)
    from market_update_Inr [OF that] consider
      (quiet) "s' = ?s0"
      | (trade) s1 where "append_spread pf ?s0 = Inr s1" and "trade_on_signal s1 = (s', cs)"
      by blast
    then show ?thesis
    proof cases
      case quiet
      with c0 show ?thesis by simp
    next
      case trade
      have "s' = fst (trade_on_signal s1)" using trade(2) by simp
      then show ?thesis
        using c0 append_spread_frame [OF trade(1)] trade_on_signal_frame [of s1]
        by (simp add: windows_consistent_def)
    qed
  qed
  show ?thesis
  proof (cases cb)
    case (OrderBook i n ap av bp bv)
    with assms(2) show ?thesis by (simp add: OrderBookMessageHandler_def mk)
  next
    case (TradeTicks i n ap av bp bv)
    with assms(2) show ?thesis by (simp add: TradeTicksMessageHandler_def mk)
  next
    case (OrderFilled c p v)
    with assms show ?thesis
      by (auto simp: OrderFilledMessageHandler_def windows_consistent_def split: if_splits)
  next
    case (OrderStatus c fv rv fees)
    with assms show ?thesis
      by (auto simp: OrderStatusMessageHandler_def windows_consistent_def Let_def split: if_splits)
  next
    case (HedgeFilled c p v)
    with assms show ?thesis by (auto simp: HedgeFilledMessageHandler_def)
  next
    case (ErrorMessage c m)
    with assms show ?thesis
      by (auto simp: ErrorMessageHandler_def OrderStatusMessageHandler_def windows_consistent_def
          Let_def split: if_splits)
  next
    case Disconnect
    with assms show ?thesis by (auto simp: DisconnectHandler_def)
  qed
qed

lemma windows_consistent_run:
  "windows_consistent s \<Longrightarrow> run pf s cbs = Inr (s', cs) \<Longrightarrow> windows_consistent s'"
proof (induction cbs arbitrary: s cs)
  case Nil
  then show ?case by simp
next
  case (Cons cb cbs)
  from Cons.prems(2) obtain s1 cs1 cs2
    where d: "deliver pf s cb = Inr (s1, cs1)" and r: "run pf s1 cbs = Inr (s', cs2)"
    by (auto split: sum.splits prod.splits)
  from windows_consistent_deliver [OF Cons.prems(1) d] have "windows_consistent s1" .
  from Cons.IH [OF this r] show ?case .
qed

lemma three_samples_state_fields:
  "ETF_midprice three_samples_state = 100" "FTR_midprice three_samples_state = 200"
  "ETF_recent_mp_prices three_samples_state = [100]"
  "FTR_recent_mp_prices three_samples_state = [100, 200]"
  "DIFF_recent_mp_prices three_samples_state = [0, 0, 0]"
  "ETF_Much_Greater three_samples_state = False" "FTR_Much_Greater three_samples_state = False"
  "ETF_Pos three_samples_state = 0"
  by (simp_all add: three_samples_state_def initial_state_def)

text \<open>
  Claim C10. In every callback that appends a spread sample and returns, the sample is the
  ETF midprice minus the FUTURE midprice in unsigned 64-bit arithmetic, that is, the integer
  difference reduced modulo \<open>2^64\<close>; when the FUTURE midprice is the larger one the sample is
  \<open>2^64\<close> minus the distance, not a negative number. The evaluation of that cycle works on
  these unsigned values: the mean is the sum of the stored samples after the oldest, reduced
  modulo \<open>2^64\<close>, divided by their number; the deviation is 1; ETF_Much_Greater is set exactly
  when the unsigned sample is above the unsigned mean + 1, and FTR_Much_Greater exactly when it
  is not and the unsigned sample is below the unsigned mean - 1. So a future 100 above the ETF
  after three flat samples is a sample of \<open>2^64 - 100\<close>, far above the mean, and sets
  ETF_Much_Greater. The windows are consistent in the initial state and after every callback
  (lemmas above).
\<close>

theorem spread_sample_is_the_wrapped_difference:
  assumes "windows_consistent s"
      and "deliver pf s cb = Inr (s', cs)"
      and "DIFF_recent_mp_prices s' \<noteq> DIFF_recent_mp_prices s"
  shows "(let sample = ETF_midprice s' - FTR_midprice s';
              history = tl (DIFF_recent_mp_prices s');
              mean = sum_list history div word_of_nat (length history)
          in DIFF_recent_mp_prices s' = DIFF_recent_mp_prices s @ [sample]
             \<and> uint sample = (uint (ETF_midprice s') - uint (FTR_midprice s')) mod 2 ^ 64
             \<and> (ETF_midprice s' < FTR_midprice s' \<longrightarrow>
                  uint sample = 2 ^ 64 - (uint (FTR_midprice s') - uint (ETF_midprice s')))
             \<and> spread_statistics pf (DIFF_recent_mp_prices s') = Inr (mean, 1)
             \<and> uint mean = ((\<Sum>x\<leftarrow>history. uint x) mod 2 ^ 64) div int (length history)
             \<and> (ETF_Much_Greater s' \<longleftrightarrow> uint (mean + 1) < uint sample)
             \<and> (FTR_Much_Greater s' \<longleftrightarrow>
                  \<not> uint (mean + 1) < uint sample \<and> uint sample < uint (mean - 1)))"
proof -
  have "\<exists>i ap av bp bv. market_update pf i ap av bp bv s = Inr (s', cs)"
  proof (cases cb)
    case (OrderBook i n ap av bp bv)
    with assms(2) have "market_update pf i ap av bp bv s = Inr (s', cs)"
      by (simp add: OrderBookMessageHandler_def)
    then show ?thesis by blast
  next
    case (TradeTicks i n ap av bp bv)
    with assms(2) have "market_update pf i ap av bp bv s = Inr (s', cs)"
      by (simp add: TradeTicksMessageHandler_def)
    then show ?thesis by blast
  next
    case (OrderFilled c p v)
    with assms(2,3) show ?thesis
      by (auto simp: OrderFilledMessageHandler_def split: if_splits)
  next
    case (OrderStatus c fv rv fees)
    with assms(2,3) show ?thesis
      by (auto simp: OrderStatusMessageHandler_def Let_def split: if_splits)
  next
    case (HedgeFilled c p v)
    with assms(2,3) show ?thesis by (auto simp: HedgeFilledMessageHandler_def)
  next
    case (ErrorMessage c m)
    with assms(2,3) show ?thesis
      by (auto simp: ErrorMessageHandler_def OrderStatusMessageHandler_def Let_def split: if_splits)
  next
    case Disconnect
    with assms(2,3) show ?thesis by (auto simp: DisconnectHandler_def)
  qed
  then obtain i ap av bp bv where "market_update pf i ap av bp bv s = Inr (s', cs)" by blast
  from market_update_sample [OF assms(1) this assms(3)]
  have d: "DIFF_recent_mp_prices s'
           = DIFF_recent_mp_prices s @ [ETF_midprice s' - FTR_midprice s']"
    and fl: "signal_flags pf (DIFF_recent_mp_prices s')
             = Inr (ETF_Much_Greater s', FTR_Much_Greater s')"
    by blast+
  have la: "last (DIFF_recent_mp_prices s') = ETF_midprice s' - FTR_midprice s'"
    by (subst d) simp
  let ?h = "tl (DIFF_recent_mp_prices s')"
  let ?m = "sum_list ?h div word_of_nat (length ?h)"
  from signal_flags_Inr [OF fl]
  have len: "length (DIFF_recent_mp_prices s') < 2 ^ 31"
    and st: "spread_statistics pf (DIFF_recent_mp_prices s') = Inr (?m, 1)"
    and e: "ETF_Much_Greater s' \<longleftrightarrow> ?m + 1 < last (DIFF_recent_mp_prices s')"
    and f: "FTR_Much_Greater s' \<longleftrightarrow>
              \<not> ?m + 1 < last (DIFF_recent_mp_prices s')
              \<and> last (DIFF_recent_mp_prices s') < ?m - 1"
    by blast+
  have "length ?h < 2 ^ 31" using len by simp
  then have um: "uint ?m = ((\<Sum>x\<leftarrow>?h. uint x) mod 2 ^ 64) div int (length ?h)"
    by (simp only: uint_div uint_sum_list uint_length)
  show ?thesis
    using d st um e f wrapped_difference [of "ETF_midprice s'" "FTR_midprice s'"]
    unfolding la word_less_def Let_def by blast
qed

theorem spread_sample_is_the_wrapped_difference_witness:
  "windows_consistent three_samples_state
   \<and> (\<exists>s' cs. deliver reference_platform three_samples_state
                 (OrderBook ETF 1 (\<lambda>i. 102) (\<lambda>i. 5) (\<lambda>i. 98) (\<lambda>i. 5)) = Inr (s', cs)
        \<and> DIFF_recent_mp_prices s' \<noteq> DIFF_recent_mp_prices three_samples_state
        \<and> ETF_midprice s' = 100 \<and> FTR_midprice s' = 200 \<and> ETF_midprice s' < FTR_midprice s'
        \<and> DIFF_recent_mp_prices s' = [0, 0, 0, 100 - 200]
        \<and> uint (100 - 200 :: u64) = 2 ^ 64 - 100
        \<and> spread_statistics reference_platform (DIFF_recent_mp_prices s')
            = Inr (6148914691236517172, 1)
        \<and> ETF_Much_Greater s' \<and> \<not> FTR_Much_Greater s')"
proof -
  have c: "windows_consistent three_samples_state"
    by (simp add: windows_consistent_def three_samples_state_fields)
  have st: "spread_statistics reference_platform [0, 0, 0, - 100] = Inr (6148914691236517172, 1)"
    using spread_statistics_Cons [of "[0, 0, - 100]" reference_platform 0] by simp
  have cmp: "(6148914691236517173 :: u64) < - 100"
    by (simp add: word_less_def)
  have fl: "signal_flags reference_platform [0, 0, 0, - 100] = Inr (True, False)"
    by (simp add: signal_flags_def st extreme_enough_def cmp)
  have h: "(0 :: u64) - min 10 98 > - 100"
    by (simp add: word_less_def)
  obtain s' cs where
    r: "deliver reference_platform three_samples_state
          (OrderBook ETF 1 (\<lambda>i. 102) (\<lambda>i. 5) (\<lambda>i. 98) (\<lambda>i. 5)) = Inr (s', cs)"
    and d: "DIFF_recent_mp_prices s' = [0, 0, 0, - 100]"
    and m: "ETF_midprice s' = 100" "FTR_midprice s' = 200"
    and g: "ETF_Much_Greater s'" "\<not> FTR_Much_Greater s'"
    using h
    by (simp add: OrderBookMessageHandler_def market_update_def update_spread_and_trade_def
        store_snapshot_def recent_mp_push_def append_spread_def deterMineOrderStatus_def fl
        trade_on_signal_def three_samples_state_fields lot_size_word)
  have n: "DIFF_recent_mp_prices s' \<noteq> DIFF_recent_mp_prices three_samples_state"
    by (simp add: d three_samples_state_fields)
  have lt: "ETF_midprice s' < FTR_midprice s'"
    by (simp add: m word_less_def)
  from spread_sample_is_the_wrapped_difference [OF c r n] r n d m g lt st
  show ?thesis
    using c by (auto simp: Let_def)
qed

section \<open>The position\<close>

text \<open>
  What one callback does to the position, in every state: only a fill for a tracked id moves
  mPosition, nothing moves ETF_Pos or FTR_Pos, every insert order is at most the lot size, and
  a sell insert of volume \<open>v\<close> is sent only when \<open>ETF_Pos - v\<close> is above the negated limit.
\<close>

lemma position_moves_only_on_fills:
  assumes "deliver pf s cb = Inr (s', cs)"
  shows "ETF_Pos s' = ETF_Pos s \<and> FTR_Pos s' = FTR_Pos s
     \<and> mPosition s' =
         (case cb of
            OrderFilled c p v \<Rightarrow>
              (if c \<in> mAsks s then mPosition s - v
               else if c \<in> mBids s then mPosition s + v
               else mPosition s)
          | _ \<Rightarrow> mPosition s)
     \<and> (\<forall>c sd p v l. SendInsertOrder c sd p v l \<in> set cs \<longrightarrow> uint v \<le> LOT_SIZE)
     \<and> (\<forall>c p v l. SendInsertOrder c SELL p v l \<in> set cs \<longrightarrow>
           - POSITION_LIMIT < sint (ETF_Pos s - v))"
proof (cases cb)
  case (OrderBook i n ap av bp bv)
  with assms have "market_update pf i ap av bp bv s = Inr (s', cs)"
    by (simp add: OrderBookMessageHandler_def)
  from market_update_positions [OF this] show ?thesis
    unfolding OrderBook POSITION_LIMIT_def LOT_SIZE_def by (fastforce simp: word_le_def)
next
  case (TradeTicks i n ap av bp bv)
  with assms have "market_update pf i ap av bp bv s = Inr (s', cs)"
    by (simp add: TradeTicksMessageHandler_def)
  from market_update_positions [OF this] show ?thesis
    unfolding TradeTicks POSITION_LIMIT_def LOT_SIZE_def by (fastforce simp: word_le_def)
next
  case (OrderFilled c p v)
  with assms show ?thesis
    by (auto simp: OrderFilledMessageHandler_def split: if_splits)
next
  case (OrderStatus c fv rv fees)
  with assms show ?thesis
    by (auto simp: OrderStatusMessageHandler_def Let_def)
next
  case (HedgeFilled c p v)
  with assms show ?thesis by (auto simp: HedgeFilledMessageHandler_def)
next
  case (ErrorMessage c m)
  with assms show ?thesis
    by (auto simp: ErrorMessageHandler_def OrderStatusMessageHandler_def Let_def)
next
  case Disconnect
  with assms show ?thesis by (auto simp: DisconnectHandler_def)
qed

text \<open>
  The source tests and erases the tracking sets (lines 109, 309, 314, 339 and 340) and never
  inserts into them: once they are empty they stay empty, and no callback moves a position.
\<close>

lemma market_update_tracking:
  assumes "market_update pf i ap av bp bv s = Inr (s', cs)"
  shows "mAsks s' = mAsks s \<and> mBids s' = mBids s"
proof -
  from market_update_Inr [OF assms] consider
    (quiet) "s' = store_snapshot i ap bp s"
    | (trade) s1 where "append_spread pf (store_snapshot i ap bp s) = Inr s1"
        and "trade_on_signal s1 = (s', cs)"
    by blast
  then show ?thesis
  proof cases
    case quiet
    then show ?thesis by (simp add: store_snapshot_frame)
  next
    case trade
    have "s' = fst (trade_on_signal s1)" using trade(2) by simp
    then show ?thesis
      using append_spread_frame [OF trade(1)] trade_on_signal_frame [of s1]
      by (simp add: store_snapshot_frame)
  qed
qed

lemma untracked_deliver:
  assumes "mAsks s = {}" and "mBids s = {}" and "deliver pf s cb = Inr (s', cs)"
  shows "mAsks s' = {} \<and> mBids s' = {}
         \<and> mPosition s' = mPosition s \<and> ETF_Pos s' = ETF_Pos s \<and> FTR_Pos s' = FTR_Pos s
         \<and> (\<forall>c \<in> set cs. call_volume c \<le> 10)"
proof -
  have mk: "mAsks s' = {} \<and> mBids s' = {}
         \<and> mPosition s' = mPosition s \<and> ETF_Pos s' = ETF_Pos s \<and> FTR_Pos s' = FTR_Pos s
         \<and> (\<forall>c \<in> set cs. call_volume c \<le> 10)"
    if "market_update pf i ap av bp bv s = Inr (s', cs)" for i ap av bp bv
    using market_update_tracking [OF that] market_update_positions [OF that] assms(1,2)
    by simp
  show ?thesis
  proof (cases cb)
    case (OrderBook i n ap av bp bv)
    with assms(3) have "market_update pf i ap av bp bv s = Inr (s', cs)"
      by (simp add: OrderBookMessageHandler_def)
    then show ?thesis by (rule mk)
  next
    case (TradeTicks i n ap av bp bv)
    with assms(3) have "market_update pf i ap av bp bv s = Inr (s', cs)"
      by (simp add: TradeTicksMessageHandler_def)
    then show ?thesis by (rule mk)
  next
    case (OrderFilled c p v)
    with assms show ?thesis by (auto simp: OrderFilledMessageHandler_def)
  next
    case (OrderStatus c fv rv fees)
    with assms show ?thesis
      by (auto simp: OrderStatusMessageHandler_def Let_def split: if_splits)
  next
    case (HedgeFilled c p v)
    with assms show ?thesis by (auto simp: HedgeFilledMessageHandler_def)
  next
    case (ErrorMessage c m)
    with assms show ?thesis by (auto simp: ErrorMessageHandler_def)
  next
    case Disconnect
    with assms show ?thesis by (auto simp: DisconnectHandler_def)
  qed
qed

lemma untracked_run:
  assumes "mAsks s = {}" and "mBids s = {}" and "run pf s cbs = Inr (s', cs)"
  shows "mAsks s' = {} \<and> mBids s' = {}
         \<and> mPosition s' = mPosition s \<and> ETF_Pos s' = ETF_Pos s \<and> FTR_Pos s' = FTR_Pos s
         \<and> (\<forall>c \<in> set cs. call_volume c \<le> 10)"
  using assms
proof (induction cbs arbitrary: s cs)
  case Nil
  then show ?case by simp
next
  case (Cons cb cbs)
  from Cons.prems(3) obtain s1 cs1 cs2
    where d: "deliver pf s cb = Inr (s1, cs1)" and r: "run pf s1 cbs = Inr (s', cs2)"
      and c: "cs = cs1 @ cs2"
    by (auto split: sum.splits prod.splits)
  from untracked_deliver [OF Cons.prems(1,2) d]
  have u: "mAsks s1 = {}" "mBids s1 = {}"
    and p: "mPosition s1 = mPosition s" "ETF_Pos s1 = ETF_Pos s" "FTR_Pos s1 = FTR_Pos s"
    and v: "\<forall>c \<in> set cs1. call_volume c \<le> 10"
    by simp_all
  from Cons.IH [OF u r] p v c show ?case by auto
qed

lemma run_prefix:
  assumes "run pf s cbs = Inr (s', cs)"
  shows "\<exists>s1 cs1. run pf s (take n cbs) = Inr (s1, cs1)"
  using assms
proof (induction cbs arbitrary: s cs n)
  case Nil
  then show ?case by simp
next
  case (Cons cb cbs)
  from Cons.prems obtain s1 cs1 cs2
    where d: "deliver pf s cb = Inr (s1, cs1)" and r: "run pf s1 cbs = Inr (s', cs2)"
    by (auto split: sum.splits prod.splits)
  show ?case
  proof (cases n)
    case 0
    then show ?thesis by simp
  next
    case (Suc k)
    from Cons.IH [OF r, of k] obtain s2 cs3 where "run pf s1 (take k cbs) = Inr (s2, cs3)"
      by blast
    with d Suc show ?thesis by simp
  qed
qed

lemma small_volume_keeps_the_limit:
  fixes v :: u64
  assumes "v \<le> 10"
  shows "uint v \<le> LOT_SIZE \<and> \<bar>sint (0 - v)\<bar> \<le> POSITION_LIMIT \<and> \<bar>sint (0 + v)\<bar> \<le> POSITION_LIMIT"
proof -
  have u: "uint v \<le> 10" using assms by (simp add: word_le_def)
  have nn: "0 \<le> uint v" by simp
  have small: "uint v < 2 ^ 63" using u by simp
  have a: "sint (0 - v) = sint (0 :: u64) - uint v"
    using small u by (intro signed_subtraction) simp_all
  have b: "sint (0 + v) = sint (0 :: u64) + uint v"
    using small u by (intro signed_addition) simp_all
  show ?thesis
    using u nn unfolding a b by (simp add: LOT_SIZE_def POSITION_LIMIT_def)
qed

text \<open>
  Claim C1. Take any run of callbacks that starts with no order tracked and every position at
  0, as the initial state is, and that returns. After every prefix of the run the positions
  are within the position limit. Every order sent on the run has a volume of at most the lot
  size, so its fill, applied in either direction to the position the headroom check reads or
  to the position the fill handler keeps, stays within the limit. And in every state a callback
  moves the position only if it is a fill for a tracked id, by the fill volume, and moves
  neither ETF_Pos nor FTR_Pos.
\<close>

theorem position_stays_within_the_limit:
  assumes "mAsks s = {}" and "mBids s = {}"
      and "mPosition s = 0" and "ETF_Pos s = 0" and "FTR_Pos s = 0"
      and "run pf s cbs = Inr (s', cs)"
  shows "(\<forall>n. \<exists>s1 cs1. run pf s (take n cbs) = Inr (s1, cs1)
            \<and> \<bar>sint (mPosition s1)\<bar> \<le> POSITION_LIMIT
            \<and> \<bar>sint (ETF_Pos s1)\<bar> \<le> POSITION_LIMIT
            \<and> \<bar>sint (FTR_Pos s1)\<bar> \<le> POSITION_LIMIT)
     \<and> (\<forall>c \<in> set cs. uint (call_volume c) \<le> LOT_SIZE
            \<and> \<bar>sint (ETF_Pos s' - call_volume c)\<bar> \<le> POSITION_LIMIT
            \<and> \<bar>sint (ETF_Pos s' + call_volume c)\<bar> \<le> POSITION_LIMIT
            \<and> \<bar>sint (mPosition s' - call_volume c)\<bar> \<le> POSITION_LIMIT
            \<and> \<bar>sint (mPosition s' + call_volume c)\<bar> \<le> POSITION_LIMIT)
     \<and> (\<forall>s0 cb s1 cs1. deliver pf s0 cb = Inr (s1, cs1) \<longrightarrow>
            mPosition s1 =
              (case cb of
                 OrderFilled c p v \<Rightarrow>
                   (if c \<in> mAsks s0 then mPosition s0 - v
                    else if c \<in> mBids s0 then mPosition s0 + v
                    else mPosition s0)
               | _ \<Rightarrow> mPosition s0)
            \<and> ETF_Pos s1 = ETF_Pos s0 \<and> FTR_Pos s1 = FTR_Pos s0)"
proof -
  have times: "\<exists>s1 cs1. run pf s (take n cbs) = Inr (s1, cs1)
            \<and> \<bar>sint (mPosition s1)\<bar> \<le> POSITION_LIMIT
            \<and> \<bar>sint (ETF_Pos s1)\<bar> \<le> POSITION_LIMIT
            \<and> \<bar>sint (FTR_Pos s1)\<bar> \<le> POSITION_LIMIT" for n
  proof -
    from run_prefix [OF assms(6), of n] obtain s1 cs1
      where r: "run pf s (take n cbs) = Inr (s1, cs1)" by blast
    from untracked_run [OF assms(1,2) r] assms(3,4,5)
    have "mPosition s1 = 0" "ETF_Pos s1 = 0" "FTR_Pos s1 = 0" by simp_all
    with r show ?thesis by (simp add: POSITION_LIMIT_def)
  qed
  from untracked_run [OF assms(1,2,6)] assms(3,4,5)
  have z: "mPosition s' = 0" "ETF_Pos s' = 0"
    and v: "\<forall>c \<in> set cs. call_volume c \<le> 10"
    by simp_all
  have orders: "\<forall>c \<in> set cs. uint (call_volume c) \<le> LOT_SIZE
            \<and> \<bar>sint (ETF_Pos s' - call_volume c)\<bar> \<le> POSITION_LIMIT
            \<and> \<bar>sint (ETF_Pos s' + call_volume c)\<bar> \<le> POSITION_LIMIT
            \<and> \<bar>sint (mPosition s' - call_volume c)\<bar> \<le> POSITION_LIMIT
            \<and> \<bar>sint (mPosition s' + call_volume c)\<bar> \<le> POSITION_LIMIT"
  proof
    fix c assume "c \<in> set cs"
    with v have "call_volume c \<le> 10" by blast
    from small_volume_keeps_the_limit [OF this] show
      "uint (call_volume c) \<le> LOT_SIZE
            \<and> \<bar>sint (ETF_Pos s' - call_volume c)\<bar> \<le> POSITION_LIMIT
            \<and> \<bar>sint (ETF_Pos s' + call_volume c)\<bar> \<le> POSITION_LIMIT
            \<and> \<bar>sint (mPosition s' - call_volume c)\<bar> \<le> POSITION_LIMIT
            \<and> \<bar>sint (mPosition s' + call_volume c)\<bar> \<le> POSITION_LIMIT"
      unfolding z by blast
  qed
  have fills: "\<forall>s0 cb s1 cs1. deliver pf s0 cb = Inr (s1, cs1) \<longrightarrow>
            mPosition s1 =
              (case cb of
                 OrderFilled c p v \<Rightarrow>
                   (if c \<in> mAsks s0 then mPosition s0 - v
                    else if c \<in> mBids s0 then mPosition s0 + v
                    else mPosition s0)
               | _ \<Rightarrow> mPosition s0)
            \<and> ETF_Pos s1 = ETF_Pos s0 \<and> FTR_Pos s1 = FTR_Pos s0"
    using position_moves_only_on_fills by blast
  from times orders fills show ?thesis by blast
qed

theorem position_stays_within_the_limit_witness:
  "mAsks sell_signal_state = {} \<and> mBids sell_signal_state = {}
   \<and> mPosition sell_signal_state = 0 \<and> ETF_Pos sell_signal_state = 0
   \<and> FTR_Pos sell_signal_state = 0
   \<and> (\<exists>s'. run reference_platform sell_signal_state
               [OrderBook ETF 1 (\<lambda>i. 20100) (\<lambda>i. 7) (\<lambda>i. 19900) (\<lambda>i. 3),
                OrderFilled 0 19900 10]
             = Inr (s', [SendInsertOrder 0 SELL 19900 10 GOOD_FOR_DAY,
                         SendHedgeOrder 0 BUY 10100 0 (Some GOOD_FOR_DAY)])
          \<and> \<bar>sint (mPosition s')\<bar> \<le> POSITION_LIMIT
          \<and> \<bar>sint (ETF_Pos s' - 10)\<bar> \<le> POSITION_LIMIT)
   \<and> (\<exists>s'. run reference_platform initial_state
               [OrderBook ETF 1 (\<lambda>i. 20100) (\<lambda>i. 7) (\<lambda>i. 19900) (\<lambda>i. 3),
                OrderFilled 5 19900 10, Disconnect] = Inr (s', [])
          \<and> \<bar>sint (mPosition s')\<bar> \<le> POSITION_LIMIT)
   \<and> (\<exists>s1 cs1. deliver reference_platform tracked_state (OrderFilled 7 19900 10) = Inr (s1, cs1)
          \<and> mPosition s1 = mPosition tracked_state - 10)"
proof -
  let ?book = "OrderBook ETF 1 (\<lambda>i. 20100) (\<lambda>i. 7) (\<lambda>i. 19900) (\<lambda>i. 3)"
  let ?orders = "[SendInsertOrder 0 SELL 19900 10 GOOD_FOR_DAY,
                  SendHedgeOrder 0 BUY 10100 0 (Some GOOD_FOR_DAY)]"
  have f: "mAsks sell_signal_state = {}" "mBids sell_signal_state = {}"
    "mPosition sell_signal_state = 0" "ETF_Pos sell_signal_state = 0"
    "FTR_Pos sell_signal_state = 0"
    by (simp_all add: sell_signal_state_def initial_state_def)
  obtain s1 where
    h1: "OrderBookMessageHandler reference_platform ETF 1 (\<lambda>i. 20100) (\<lambda>i. 7) (\<lambda>i. 19900)
           (\<lambda>i. 3) sell_signal_state = Inr (s1, ?orders)"
    using sell_signal_update [of reference_platform "\<lambda>i. 7" "\<lambda>i. 3"]
    by (auto simp: OrderBookMessageHandler_def)
  then have d1: "deliver reference_platform sell_signal_state ?book = Inr (s1, ?orders)"
    by simp
  from untracked_deliver [OF f(1,2) d1] have e1: "mAsks s1 = {}" "mBids s1 = {}"
    by simp_all
  have h2: "OrderFilledMessageHandler reference_platform 0 19900 10 s1 = (s1, [])"
    by (simp add: OrderFilledMessageHandler_def e1)
  have r1: "run reference_platform sell_signal_state [?book, OrderFilled 0 19900 10]
            = Inr (s1, ?orders)"
    by (simp add: h1 h2)
  note t1 = position_stays_within_the_limit [OF f r1]
  have tk1: "take 2 [?book, OrderFilled 0 19900 10] = [?book, OrderFilled 0 19900 10]"
    by simp
  from t1 obtain s2 cs2 where
    x1: "run reference_platform sell_signal_state (take 2 [?book, OrderFilled 0 19900 10])
         = Inr (s2, cs2)"
    and y1: "\<bar>sint (mPosition s2)\<bar> \<le> POSITION_LIMIT"
    by blast
  from x1 [unfolded tk1 r1] have "s2 = s1" by simp
  with y1 have p1: "\<bar>sint (mPosition s1)\<bar> \<le> POSITION_LIMIT"
    by simp
  from t1 have "\<forall>c \<in> set ?orders. \<bar>sint (ETF_Pos s1 - call_volume c)\<bar> \<le> POSITION_LIMIT"
    by blast
  then have q1: "\<bar>sint (ETF_Pos s1 - 10)\<bar> \<le> POSITION_LIMIT"
    by simp
  have a: "\<exists>s'. run reference_platform sell_signal_state [?book, OrderFilled 0 19900 10]
             = Inr (s', ?orders)
          \<and> \<bar>sint (mPosition s')\<bar> \<le> POSITION_LIMIT
          \<and> \<bar>sint (ETF_Pos s' - 10)\<bar> \<le> POSITION_LIMIT"
    using r1 p1 q1 by blast
  have i: "mAsks initial_state = {}" "mBids initial_state = {}"
    "mPosition initial_state = 0" "ETF_Pos initial_state = 0" "FTR_Pos initial_state = 0"
    "FTR_midprice initial_state = 0"
    by (simp_all add: initial_state_def)
  let ?s0 = "store_snapshot ETF (\<lambda>i. 20100) (\<lambda>i. 19900) initial_state"
  have g: "FTR_midprice ?s0 = 0" "mAsks ?s0 = {}" "mBids ?s0 = {}"
    by (simp_all add: store_snapshot_def i)
  have k1: "OrderBookMessageHandler reference_platform ETF 1 (\<lambda>i. 20100) (\<lambda>i. 7) (\<lambda>i. 19900)
           (\<lambda>i. 3) initial_state = Inr (?s0, [])"
    by (simp add: OrderBookMessageHandler_def market_update_def update_spread_and_trade_def g)
  have k2: "OrderFilledMessageHandler reference_platform 5 19900 10 ?s0 = (?s0, [])"
    by (simp add: OrderFilledMessageHandler_def g)
  have r0: "run reference_platform initial_state [?book, OrderFilled 5 19900 10, Disconnect]
            = Inr (?s0, [])"
    by (simp add: k1 k2 DisconnectHandler_def)
  note t0 = position_stays_within_the_limit [OF i(1-5) r0]
  have tk0: "take 3 [?book, OrderFilled 5 19900 10, Disconnect]
             = [?book, OrderFilled 5 19900 10, Disconnect]"
    by simp
  from t0 obtain s4 cs4 where
    x0: "run reference_platform initial_state (take 3 [?book, OrderFilled 5 19900 10, Disconnect])
         = Inr (s4, cs4)"
    and y0: "\<bar>sint (mPosition s4)\<bar> \<le> POSITION_LIMIT"
    by blast
  from x0 [unfolded tk0 r0] have "s4 = ?s0" by simp
  with y0 have p0: "\<bar>sint (mPosition ?s0)\<bar> \<le> POSITION_LIMIT"
    by simp
  have b: "\<exists>s'. run reference_platform initial_state [?book, OrderFilled 5 19900 10, Disconnect]
             = Inr (s', []) \<and> \<bar>sint (mPosition s')\<bar> \<le> POSITION_LIMIT"
    using r0 p0 by blast
  have m: "7 \<in> mAsks tracked_state"
    by (simp add: tracked_state_def initial_state_def)
  obtain s3 cs3 where
    d3: "deliver reference_platform tracked_state (OrderFilled 7 19900 10) = Inr (s3, cs3)"
    by (cases "OrderFilledMessageHandler reference_platform 7 19900 10 tracked_state") auto
  from t0 d3 have "mPosition s3 =
      (case OrderFilled 7 19900 10 of
         OrderFilled c p v \<Rightarrow>
           (if c \<in> mAsks tracked_state then mPosition tracked_state - v
            else if c \<in> mBids tracked_state then mPosition tracked_state + v
            else mPosition tracked_state)
       | _ \<Rightarrow> mPosition tracked_state)"
    by blast
  then have "mPosition s3 = mPosition tracked_state - 10"
    using m by simp
  with d3 have c: "\<exists>s1 cs1. deliver reference_platform tracked_state (OrderFilled 7 19900 10)
                     = Inr (s1, cs1) \<and> mPosition s1 = mPosition tracked_state - 10"
    by blast
  from f a b c show ?thesis by blast
qed

text \<open>
  The source never adds an id to the tracking sets and evaluates the first spread sample by a
  division by zero. So a run that starts in the initial state and returns has sent no order and
  has not moved the position.
\<close>

lemma untouched_initial: "untouched initial_state"
  by (simp add: untouched_def initial_state_def)

lemma untouched_deliver:
  assumes "untouched s" and "deliver pf s cb = Inr (s', cs)"
  shows "untouched s' \<and> cs = []"
proof -
  have mk: "untouched s' \<and> cs = []" if "market_update pf i ap av bp bv s = Inr (s', cs)"
    for i ap av bp bv
  proof -
    let ?s0 = "store_snapshot i ap bp s"
    have u0: "untouched ?s0"
      using assms(1) by (simp add: untouched_def store_snapshot_frame)
    from market_update_Inr [OF that] consider
      (quiet) "s' = ?s0" and "cs = []"
      | (trade) s1 where "append_spread pf ?s0 = Inr s1" and "trade_on_signal s1 = (s', cs)"
      by blast
    then show ?thesis
    proof cases
      case quiet
      with u0 show ?thesis by simp
    next
      case trade
      have "s1 = ?s0"
      proof (rule ccontr)
        assume "s1 \<noteq> ?s0"
        with append_spread_Inr [OF trade(1)] obtain e f
          where fl: "signal_flags pf (DIFF_recent_mp_prices s1) = Inr (e, f)"
            and eq: "s1 = ?s0\<lparr>DIFF_recent_mp_prices :=
                        DIFF_recent_mp_prices ?s0
                        @ [last (ETF_recent_mp_prices ?s0) - last (FTR_recent_mp_prices ?s0)],
                      ETF_Much_Greater := ETF_Much_Greater s1,
                      FTR_Much_Greater := FTR_Much_Greater s1\<rparr>"
          by blast
        have "DIFF_recent_mp_prices s1
              = DIFF_recent_mp_prices ?s0
                @ [last (ETF_recent_mp_prices ?s0) - last (FTR_recent_mp_prices ?s0)]"
          by (subst eq) simp
        with u0 have "DIFF_recent_mp_prices s1
              = [last (ETF_recent_mp_prices ?s0) - last (FTR_recent_mp_prices ?s0)]"
          by (simp add: untouched_def)
        with fl show False by (simp add: signal_flags_one)
      qed
      with u0 trade(2) show ?thesis
        by (auto simp: untouched_def trade_on_signal_def)
    qed
  qed
  show ?thesis
  proof (cases cb)
    case (OrderBook i n ap av bp bv)
    with assms(2) have "market_update pf i ap av bp bv s = Inr (s', cs)"
      by (simp add: OrderBookMessageHandler_def)
    then show ?thesis by (rule mk)
  next
    case (TradeTicks i n ap av bp bv)
    with assms(2) have "market_update pf i ap av bp bv s = Inr (s', cs)"
      by (simp add: TradeTicksMessageHandler_def)
    then show ?thesis by (rule mk)
  next
    case (OrderFilled c p v)
    with assms show ?thesis
      by (auto simp: OrderFilledMessageHandler_def untouched_def)
  next
    case (OrderStatus c fv rv fees)
    with assms show ?thesis
      by (auto simp: OrderStatusMessageHandler_def untouched_def Let_def split: if_splits)
  next
    case (HedgeFilled c p v)
    with assms show ?thesis by (auto simp: HedgeFilledMessageHandler_def)
  next
    case (ErrorMessage c m)
    with assms show ?thesis
      by (auto simp: ErrorMessageHandler_def untouched_def)
  next
    case Disconnect
    with assms show ?thesis by (auto simp: DisconnectHandler_def)
  qed
qed

lemma untouched_run:
  "untouched s \<Longrightarrow> run pf s cbs = Inr (s', cs) \<Longrightarrow> untouched s' \<and> cs = []"
proof (induction cbs arbitrary: s cs)
  case Nil
  then show ?case by simp
next
  case (Cons cb cbs)
  from Cons.prems(2) obtain s1 cs1 cs2
    where d: "deliver pf s cb = Inr (s1, cs1)" and r: "run pf s1 cbs = Inr (s', cs2)"
      and c: "cs = cs1 @ cs2"
    by (auto split: sum.splits prod.splits)
  from untouched_deliver [OF Cons.prems(1) d] have u: "untouched s1" and e: "cs1 = []"
    by simp_all
  from Cons.IH [OF u r] c e show ?case by simp
qed

lemma nothing_happens_from_the_initial_state:
  assumes "run pf initial_state cbs = Inr (s', cs)"
  shows "cs = [] \<and> mPosition s' = 0 \<and> mAsks s' = {} \<and> mBids s' = {}"
  using untouched_run [OF untouched_initial assms] by (simp add: untouched_def)

end
